theory Spec2Isabelle
  imports Complex_Main
begin

section \<open>slm: a command-line chat client, in its Linux and its Plan 9 variant\<close>

text \<open>
  The repository holds two programs with the same architecture: \<^verbatim>\<open>slm-linux.go\<close>
  (functions \<^verbatim>\<open>parseFlags\<close>, \<^verbatim>\<open>ensureHistDir\<close>, \<^verbatim>\<open>loadHist\<close>,
  \<^verbatim>\<open>appendHist\<close>, \<^verbatim>\<open>sendChat\<close>) and \<^verbatim>\<open>slm.go\<close> for 9front
  (\<^verbatim>\<open>parseflags\<close>, \<^verbatim>\<open>ensurehistdir\<close>, \<^verbatim>\<open>loadhist\<close>, \<^verbatim>\<open>appendhist\<close>,
  \<^verbatim>\<open>sendchat\<close>). Both are embedded here, function by function, under the names of the
  source; the two \<^verbatim>\<open>main\<close> functions are \<open>main_linux\<close> and \<open>main_plan9\<close>.

  What the programs call but do not define (the operating system, \<^verbatim>\<open>net/http\<close>,
  \<^verbatim>\<open>encoding/json\<close>, \<^verbatim>\<open>fmt\<close>, and the package \<^verbatim>\<open>github.com/mischief/ndb\<close>) is
  gathered in a record \<open>world\<close>: every call of the source into one of them reads a field
  of that record. A run starts after \<^verbatim>\<open>flag.Parse\<close> has returned: a command line that
  the \<^verbatim>\<open>flag\<close> package ends by itself (an unknown flag, a malformed value, a request
  for the usage text) ends inside that package, before any line of the repository's own
  code that follows it.
\<close>

subsection \<open>Errors\<close>

text \<open>
  One constructor per way in which the two programs build an \<^verbatim>\<open>error\<close>:
  \<open>Extern\<close> is an error handed back by a library or the operating system,
  \<open>Errorf_w\<close> is \<^verbatim>\<open>fmt.Errorf("<context>: %w", err)\<close>,
  \<open>APIStatusError\<close> is \<^verbatim>\<open>fmt.Errorf("OpenAI API error: status %d, body: %s", ..)\<close>,
  \<open>APIError\<close> is \<^verbatim>\<open>fmt.Errorf("OpenAI API error: %s", ..)\<close>,
  \<open>Errorf\<close> is \<^verbatim>\<open>fmt.Errorf\<close> of a constant text, and
  \<open>CLIError\<close> is the struct of that name in \<^verbatim>\<open>slm.go\<close>.
\<close>

datatype error =
    Extern string
  | Errorf_w string error
  | APIStatusError nat string
  | APIError string
  | Errorf string
  | CLIError string "error option"

text \<open>The decimal digits that the verb \<^verbatim>\<open>%d\<close> prints for a status code.\<close>

definition digit :: "nat \<Rightarrow> char" where
  "digit n = char_of (48 + n)"

fun itoa :: "nat \<Rightarrow> string" where
  "itoa n = (if n < 10 then [digit n] else itoa (n div 10) @ [digit (n mod 10)])"

declare itoa.simps [simp del]

text \<open>The method \<^verbatim>\<open>Error()\<close>: the text that \<^verbatim>\<open>log.Fatal(err)\<close> prints.\<close>

fun Error :: "error \<Rightarrow> string" where
  "Error (Extern s) = s"
| "Error (Errorf_w ctx e) = ctx @ '': '' @ Error e"
| "Error (APIStatusError code body) =
     ''OpenAI API error: status '' @ itoa code @ '', body: '' @ body"
| "Error (APIError msg) = ''OpenAI API error: '' @ msg"
| "Error (Errorf s) = s"
| "Error (CLIError ctx None) = ctx"
| "Error (CLIError ctx (Some e)) = ctx @ '': '' @ Error e"

subsection \<open>The data of both programs\<close>

record Message =
  Role :: string
  Content :: string

record Choice =
  Message :: Message

record ChatRequest =
  Model :: string
  Temperature :: real
  Messages :: "Message list"

record ChatResponse =
  Choices :: "Choice list"

record Opts =
  Model :: string
  Temp :: real
  SysPrompt :: string
  UserPrompt :: string
  Continue :: bool
  APIKey :: string

text \<open>The Plan 9 variant's \<^verbatim>\<open>Opts\<close> has one more field, the base directory.\<close>

record Opts_plan9 = Opts +
  Home :: string

text \<open>
  The command line as \<^verbatim>\<open>flag.Parse\<close> leaves it: the values of \<^verbatim>\<open>-m\<close>, \<^verbatim>\<open>-t\<close>,
  \<^verbatim>\<open>-s\<close>, \<^verbatim>\<open>-c\<close> (their defaults when absent) and the positional arguments.
  The temperature is only carried into the request; nothing computes with it.
\<close>

record CommandLine =
  flag_m :: string
  flag_t :: real
  flag_s :: string
  flag_c :: bool
  Args :: "string list"

text \<open>The types of package ndb: a record is a list of attribute-value tuples.\<close>

record Tuple =
  Attr :: string
  Val :: string

type_synonym Record = "Tuple list"
type_synonym RecordSet = "Record list"

text \<open>A JSON value; an object keeps its members in the order of the text.\<close>

datatype json =
    JNull
  | JBool bool
  | JNumber string
  | JString string
  | JArray "json list"
  | JObject "(string \<times> json) list"

text \<open>
  An HTTP request as \<^verbatim>\<open>http.NewRequest\<close> builds it, and a response: its status code,
  what \<^verbatim>\<open>ioutil.ReadAll(resp.Body)\<close> returns (the bytes, or the read error), and the
  JSON value that \<^verbatim>\<open>encoding/json\<close> reads from these bytes (\<open>None\<close> when they are
  not the text of a JSON value).
\<close>

record Request =
  Method :: string
  URL :: string
  Header :: "(string \<times> string) list"
  Payload :: string

record Response =
  StatusCode :: nat
  Body :: "error + string"
  Json :: "json option"

subsection \<open>The world outside the two programs\<close>

text \<open>
  \<^item> \<open>Getenv\<close>: \<^verbatim>\<open>os.Getenv\<close> (the empty string for an unset variable);
  \<^item> \<open>Stdin\<close>: what \<^verbatim>\<open>ioutil.ReadAll(os.Stdin)\<close> returns, the data and the error;
  \<^item> \<open>UserConfigDir\<close>, \<open>UserHomeDir\<close>: the functions of package \<^verbatim>\<open>os\<close>;
  \<^item> \<open>MkdirAll\<close>: the error \<^verbatim>\<open>os.MkdirAll\<close> returns for a path, if any;
  \<^item> \<open>Files\<close>: the contents of the regular files, by path;
  \<^item> \<open>OpenFile\<close>: the error of \<^verbatim>\<open>os.OpenFile(path, O_CREATE|O_APPEND|O_WRONLY, ..)\<close>, if any;
  \<^item> \<open>Quote\<close>: the text that the verb \<^verbatim>\<open>%q\<close> of package \<^verbatim>\<open>fmt\<close> prints for a string;
  \<^item> \<open>ndb_Parse\<close>: the records package ndb reads from the text of a file, or its error;
  \<^item> \<open>ndb_Search\<close>: the method \<^verbatim>\<open>Search(attr, val)\<close> of an opened database;
  \<^item> \<open>json_Marshal\<close>: \<^verbatim>\<open>json.Marshal\<close> of a request body;
  \<^item> \<open>NewRequest_err\<close>: the error of \<^verbatim>\<open>http.NewRequest\<close>, if any;
  \<^item> \<open>Do\<close>: what \<^verbatim>\<open>http.DefaultClient.Do\<close> returns, a transport error or a response.
\<close>

record world =
  Getenv :: "string \<Rightarrow> string"
  Stdin :: "string \<times> error option"
  UserConfigDir :: "error + string"
  UserHomeDir :: string
  MkdirAll :: "string \<Rightarrow> error option"
  Files :: "string \<Rightarrow> string option"
  OpenFile :: "string \<Rightarrow> error option"
  Quote :: "string \<Rightarrow> string"
  ndb_Parse :: "string \<Rightarrow> error + RecordSet"
  ndb_Search :: "RecordSet \<Rightarrow> string \<Rightarrow> string \<Rightarrow> RecordSet"
  json_Marshal :: "ChatRequest \<Rightarrow> error + string"
  NewRequest_err :: "error option"
  Do :: "error + Response"

subsection \<open>Processes: what a run does and how it ends\<close>

text \<open>
  The effects of a run that the claims speak about, in the order in which they happen:
  reading standard input to its end; \<^verbatim>\<open>os.MkdirAll\<close> of a directory; \<^verbatim>\<open>ndb.Open\<close>
  of a file; \<^verbatim>\<open>os.OpenFile\<close> of a file for appending; a write of a text to a file; the
  HTTP request handed to \<^verbatim>\<open>http.DefaultClient.Do\<close>; a text on standard output; a
  message on standard error (as package \<^verbatim>\<open>log\<close> or a panic prints it, without the
  time stamp).
\<close>

datatype event =
    Read_Stdin
  | Mkdir string
  | Ndb_Open string
  | Open_Append string
  | Write string string
  | Http_Do Request
  | Print string
  | Log string

text \<open>
  A function that can end the process returns its events and either the exit status
  (\<open>Inl\<close>) or its value (\<open>Inr\<close>). A function that cannot returns its events and its
  value; \<open>call\<close> runs it inside a process.
\<close>

type_synonym 'a proc = "event list \<times> (nat + 'a)"

definition andthen :: "'a proc \<Rightarrow> ('a \<Rightarrow> 'b proc) \<Rightarrow> 'b proc" where
  "andthen p f =
     (case p of
        (es, Inl n) \<Rightarrow> (es, Inl n)
      | (es, Inr v) \<Rightarrow> (case f v of (es', r) \<Rightarrow> (es @ es', r)))"

definition call :: "event list \<times> 'a \<Rightarrow> 'a proc" where
  "call p = (case p of (es, v) \<Rightarrow> (es, Inr v))"

definition return :: "'a \<Rightarrow> 'a proc" where
  "return v = ([], Inr v)"

definition events :: "'a proc \<Rightarrow> event list" where
  "events p = fst p"

text \<open>The exit status of a run of \<^verbatim>\<open>main\<close>: 0 when \<^verbatim>\<open>main\<close> returns.\<close>

definition exit_status :: "'a proc \<Rightarrow> nat" where
  "exit_status p = (case snd p of Inl n \<Rightarrow> n | Inr v \<Rightarrow> 0)"

text \<open>\<^verbatim>\<open>log.Fatal\<close> prints its message and leaves with status 1.\<close>

definition Fatal :: "string \<Rightarrow> 'a proc" where
  "Fatal msg = ([Log msg], Inl 1)"

text \<open>
  A method call on a nil pointer that reads the receiver's fields: the Go runtime
  panics, and the process leaves with status 2.
\<close>

definition go_panic :: "string \<Rightarrow> 'a proc" where
  "go_panic msg = ([Log (''panic: '' @ msg)], Inl 2)"

definition nil_dereference :: string where
  "nil_dereference = ''runtime error: invalid memory address or nil pointer dereference''"

text \<open>\<^verbatim>\<open>fmt.Println\<close> of one string.\<close>

definition Println :: "string \<Rightarrow> unit proc" where
  "Println s = ([Print (s @ [CHR 0x0A])], Inr ())"

text \<open>
  \<^verbatim>\<open>filepath.Join\<close>: the non-empty elements, separated by a slash. The final
  \<^verbatim>\<open>Clean\<close> of the result is left out: no claim depends on the spelling of a path.
\<close>

fun joined :: "string \<Rightarrow> string list \<Rightarrow> string" where
  "joined sep [] = []"
| "joined sep [x] = x"
| "joined sep (x # y # ys) = x @ sep @ joined sep (y # ys)"

definition Join :: "string list \<Rightarrow> string" where
  "Join elems = joined ''/'' (filter (\<lambda>e. e \<noteq> []) elems)"

text \<open>
  \<^verbatim>\<open>ndb.Open\<close>: fails for a file that does not exist or that does not parse; the
  database it returns with an error is nil, so the result is either the error or the
  records.
\<close>

definition ndb_Open :: "world \<Rightarrow> string \<Rightarrow> error + RecordSet" where
  "ndb_Open w path =
     (case Files w path of
        None \<Rightarrow> Inl (Extern (''open '' @ path @ '': no such file or directory''))
      | Some txt \<Rightarrow> ndb_Parse w txt)"

definition NewRequest :: "world \<Rightarrow> string \<Rightarrow> string \<Rightarrow> string \<Rightarrow> error + Request" where
  "NewRequest w method url body =
     (case NewRequest_err w of
        Some err \<Rightarrow> Inl err
      | None \<Rightarrow> Inr \<lparr>Method = method, URL = url, Header = [], Payload = body\<rparr>)"

definition StatusOK :: nat where
  "StatusOK = 200"

subsection \<open>Decoding a JSON value into the structs of the programs\<close>

text \<open>
  \<^verbatim>\<open>json.Unmarshal\<close> into a struct, as package \<^verbatim>\<open>encoding/json\<close> documents it: the
  members of an object are taken in their order; a member whose key matches a field's
  tag (exactly, or up to the case of its letters) is decoded into that field, on top of
  what the field holds; any other member is skipped; \<^verbatim>\<open>null\<close> leaves the target as it
  is; a value of the wrong kind is an \<^verbatim>\<open>UnmarshalTypeError\<close>. The programs use no
  result of a decoding that returned an error, so the first error ends the decoding
  here. Case folding is that of ASCII letters. An array is decoded into a fresh slice
  (for a key \<^verbatim>\<open>choices\<close> that repeats, the last array stands).
\<close>

definition SyntaxError :: error where
  "SyntaxError = Extern ''invalid character looking for beginning of value''"

definition UnmarshalTypeError :: error where
  "UnmarshalTypeError = Extern ''json: cannot unmarshal value into Go value''"

definition ascii_lower :: "char \<Rightarrow> char" where
  "ascii_lower ch =
     (let n = (of_char ch :: nat) in if 65 \<le> n \<and> n \<le> 90 then char_of (n + 32) else ch)"

definition key_is :: "string \<Rightarrow> string \<Rightarrow> bool" where
  "key_is tag k = (map ascii_lower k = map ascii_lower tag)"

definition into_string :: "json \<Rightarrow> string \<Rightarrow> error + string" where
  "into_string j old =
     (case j of JString s \<Rightarrow> Inr s | JNull \<Rightarrow> Inr old | _ \<Rightarrow> Inl UnmarshalTypeError)"

fun into_fields ::
  "(string \<Rightarrow> json \<Rightarrow> 'a \<Rightarrow> error + 'a) \<Rightarrow> (string \<times> json) list \<Rightarrow> 'a \<Rightarrow> error + 'a" where
  "into_fields field [] v = Inr v"
| "into_fields field ((k, j) # members) v =
     (case field k j v of
        Inl err \<Rightarrow> Inl err
      | Inr v' \<Rightarrow> into_fields field members v')"

definition into_struct ::
  "(string \<Rightarrow> json \<Rightarrow> 'a \<Rightarrow> error + 'a) \<Rightarrow> json \<Rightarrow> 'a \<Rightarrow> error + 'a" where
  "into_struct field j v =
     (case j of
        JObject members \<Rightarrow> into_fields field members v
      | JNull \<Rightarrow> Inr v
      | _ \<Rightarrow> Inl UnmarshalTypeError)"

definition into_Message :: "json \<Rightarrow> Message \<Rightarrow> error + Message" where
  "into_Message =
     into_struct (\<lambda>k j m.
       if key_is ''role'' k then map_sum id (\<lambda>s. m\<lparr>Role := s\<rparr>) (into_string j (Role m))
       else if key_is ''content'' k
         then map_sum id (\<lambda>s. m\<lparr>Content := s\<rparr>) (into_string j (Content m))
       else Inr m)"

definition into_Choice :: "json \<Rightarrow> Choice \<Rightarrow> error + Choice" where
  "into_Choice =
     into_struct (\<lambda>k j c.
       if key_is ''message'' k
         then map_sum id (\<lambda>m. c\<lparr>Message := m\<rparr>) (into_Message j (Message c))
       else Inr c)"

fun into_elems :: "json list \<Rightarrow> error + Choice list" where
  "into_elems [] = Inr []"
| "into_elems (j # js) =
     (case into_Choice j \<lparr>Message = \<lparr>Role = [], Content = []\<rparr>\<rparr> of
        Inl err \<Rightarrow> Inl err
      | Inr c \<Rightarrow> (case into_elems js of Inl err \<Rightarrow> Inl err | Inr cs \<Rightarrow> Inr (c # cs)))"

definition into_Choices :: "json \<Rightarrow> Choice list \<Rightarrow> error + Choice list" where
  "into_Choices j old =
     (case j of
        JArray js \<Rightarrow> into_elems js
      | JNull \<Rightarrow> Inr []
      | _ \<Rightarrow> Inl UnmarshalTypeError)"

text \<open>Decoding into \<^verbatim>\<open>var cres ChatResponse\<close>.\<close>

definition Unmarshal_ChatResponse :: "json option \<Rightarrow> error + ChatResponse" where
  "Unmarshal_ChatResponse body =
     (case body of
        None \<Rightarrow> Inl SyntaxError
      | Some j \<Rightarrow>
          into_struct (\<lambda>k x r.
            if key_is ''choices'' k
              then map_sum id (\<lambda>cs. r\<lparr>Choices := cs\<rparr>) (into_Choices x (Choices r))
            else Inr r) j \<lparr>Choices = []\<rparr>)"

text \<open>
  Decoding into \<^verbatim>\<open>var errResp struct { Error struct { Message string } }\<close>; the
  value is the one string the struct holds, \<^verbatim>\<open>errResp.Error.Message\<close>.
\<close>

definition Unmarshal_errResp :: "json option \<Rightarrow> error + string" where
  "Unmarshal_errResp body =
     (case body of
        None \<Rightarrow> Inl SyntaxError
      | Some j \<Rightarrow>
          into_struct (\<lambda>k x msg.
            if key_is ''error'' k
              then into_struct (\<lambda>k' x' msg'.
                     if key_is ''message'' k' then into_string x' msg' else Inr msg') x msg
            else Inr msg) j [])"

subsection \<open>Reading and writing the history: the code both variants share\<close>

text \<open>
  The inner loop of \<^verbatim>\<open>loadHist\<close> and \<^verbatim>\<open>loadhist\<close> over the tuples of one record,
  on the variables \<^verbatim>\<open>role\<close> and \<^verbatim>\<open>content\<close>, and the outer loop over the records,
  on the slice \<^verbatim>\<open>msgs\<close>. The two programs have the same text here.
\<close>

fun tuples_loop :: "Record \<Rightarrow> string \<times> string \<Rightarrow> string \<times> string" where
  "tuples_loop [] rc = rc"
| "tuples_loop (tup # rest) (role, content) =
     tuples_loop rest
       (if Attr tup = ''role'' then Val tup else role,
        if Attr tup = ''content'' then Val tup else content)"

fun records_loop :: "RecordSet \<Rightarrow> Message list \<Rightarrow> Message list" where
  "records_loop [] msgs = msgs"
| "records_loop (rec # recs) msgs =
     (case tuples_loop rec ([], []) of
        (role, content) \<Rightarrow>
          records_loop recs
            (if role \<noteq> [] \<and> content \<noteq> []
             then msgs @ [\<lparr>Role = role, Content = content\<rparr>] else msgs))"

text \<open>
  One line of the history file:
  \<^verbatim>\<open>fmt.Fprintf(f, "message role=%q content=%q\n", role, content)\<close>.
\<close>

definition hist_line :: "world \<Rightarrow> string \<Rightarrow> string \<Rightarrow> string" where
  "hist_line w role content =
     ''message role='' @ Quote w role @ '' content='' @ Quote w content @ [CHR 0x0A]"

text \<open>
  The two \<^verbatim>\<open>Fprintf\<close> calls on the file opened with \<^verbatim>\<open>O_CREATE|O_APPEND\<close>: the
  file, created empty if absent, is extended by the two lines. The programs ignore
  what \<^verbatim>\<open>Fprintf\<close> returns; the writes are taken to succeed.
\<close>

definition append_lines :: "world \<Rightarrow> string \<Rightarrow> string \<Rightarrow> string \<Rightarrow> world proc" where
  "append_lines w path userp reply =
     (let old = (case Files w path of None \<Rightarrow> [] | Some txt \<Rightarrow> txt);
          l1 = hist_line w ''user'' userp;
          l2 = hist_line w ''assistant'' reply
      in ([Write path l1, Write path l2],
          Inr (w\<lparr>Files := (Files w)(path \<mapsto> old @ l1 @ l2)\<rparr>)))"

text \<open>
  The message list of \<^verbatim>\<open>main\<close>: the history, the system prompt if it is not empty,
  the user prompt.
\<close>

definition build_msgs :: "Message list \<Rightarrow> string \<Rightarrow> string \<Rightarrow> Message list" where
  "build_msgs msgs0 sysp userp =
     (let msgs1 = (if sysp \<noteq> [] then msgs0 @ [\<lparr>Role = ''system'', Content = sysp\<rparr>]
                   else msgs0)
      in msgs1 @ [\<lparr>Role = ''user'', Content = userp\<rparr>])"

subsection \<open>The Linux variant, \<^verbatim>\<open>slm-linux.go\<close>\<close>

definition AppName :: string where
  "AppName = ''slm''"

definition HistFile :: string where
  "HistFile = ''history.ndb''"

definition APIURL :: string where
  "APIURL = ''https://api.openai.com/v1/chat/completions''"

definition parseFlags :: "world \<Rightarrow> CommandLine \<Rightarrow> Opts proc" where
  "parseFlags w cl =
     (let apikey = Getenv w ''OPENAI_API_KEY'' in
      if apikey = [] then Fatal ''[ERROR] OPENAI_API_KEY not set''
      else
        andthen
          (case Args cl of
             arg0 # _ \<Rightarrow> return arg0
           | [] \<Rightarrow>
               (case Stdin w of
                  (data, Some err) \<Rightarrow>
                    andthen (call ([Read_Stdin], ()))
                      (\<lambda>_. Fatal (''[ERROR] prompt could not be read: '' @ Error err))
                | (data, None) \<Rightarrow> call ([Read_Stdin], data)))
          (\<lambda>userp.
             return \<lparr>Model = flag_m cl, Temp = flag_t cl, SysPrompt = flag_s cl,
                     UserPrompt = userp, Continue = flag_c cl, APIKey = apikey\<rparr>))"

definition histDir :: "world \<Rightarrow> string" where
  "histDir w =
     (case UserConfigDir w of
        Inl err \<Rightarrow> Join [Join [UserHomeDir w, ''.config''], AppName]
      | Inr confDir \<Rightarrow> Join [confDir, AppName])"

definition histPath :: "world \<Rightarrow> string" where
  "histPath w = Join [histDir w, HistFile]"

definition ensureHistDir :: "world \<Rightarrow> event list \<times> error option" where
  "ensureHistDir w = ([Mkdir (histDir w)], MkdirAll w (histDir w))"

definition loadHist :: "world \<Rightarrow> event list \<times> Message list" where
  "loadHist w =
     ([Ndb_Open (histPath w)],
      (case ndb_Open w (histPath w) of
         Inl err \<Rightarrow> []
       | Inr db \<Rightarrow> records_loop (ndb_Search w db ''role'' []) []))"

definition appendHist :: "world \<Rightarrow> string \<Rightarrow> string \<Rightarrow> world proc" where
  "appendHist w userp reply =
     andthen (call ([Open_Append (histPath w)], OpenFile w (histPath w)))
       (\<lambda>err. case err of
          Some e \<Rightarrow> Fatal (''[ERROR] opening history file: '' @ Error e)
        | None \<Rightarrow> append_lines w (histPath w) userp reply)"

definition sendChat :: "world \<Rightarrow> Opts \<Rightarrow> Message list \<Rightarrow> event list \<times> (error + string)" where
  "sendChat w opts msgs =
     (let reqBody = \<lparr>ChatRequest.Model = Opts.Model opts, Temperature = Temp opts,
                     Messages = msgs\<rparr> in
      case json_Marshal w reqBody of
        Inl err \<Rightarrow> ([], Inl (Errorf_w ''[ERROR] marshalling request'' err))
      | Inr buf \<Rightarrow>
      (case NewRequest w ''POST'' APIURL buf of
        Inl err \<Rightarrow> ([], Inl (Errorf_w ''[ERROR] creating request'' err))
      | Inr req0 \<Rightarrow>
      (let req = req0\<lparr>Header := [(''Content-Type'', ''application/json''),
                                 (''Authorization'', ''Bearer '' @ APIKey opts)]\<rparr> in
       case Do w of
        Inl err \<Rightarrow> ([Http_Do req], Inl (Errorf_w ''[ERROR] request error'' err))
      | Inr resp \<Rightarrow>
      (case Body resp of
        Inl err \<Rightarrow> ([Http_Do req], Inl (Errorf_w ''[ERROR] reading response body'' err))
      | Inr bodyBytes \<Rightarrow>
        if StatusCode resp \<noteq> StatusOK
        then ([Http_Do req], Inl (APIStatusError (StatusCode resp) bodyBytes))
        else
          (let parsed =
             (case Unmarshal_ChatResponse (Json resp) of
                Inl err \<Rightarrow> Inl (Errorf_w ''[ERROR] decoding response'' err)
              | Inr cres \<Rightarrow>
                  (case Choices cres of
                     [] \<Rightarrow> Inl (Errorf ''[ERROR] no choices in response'')
                   | c # _ \<Rightarrow> Inr (Content (Message c))))
           in ([Http_Do req],
               (case Unmarshal_errResp (Json resp) of
                  Inr msg \<Rightarrow> if msg \<noteq> [] then Inl (APIError msg) else parsed
                | Inl err \<Rightarrow> parsed)))))))"

definition main_linux :: "world \<Rightarrow> CommandLine \<Rightarrow> world proc" where
  "main_linux w cl =
     andthen (parseFlags w cl) (\<lambda>opts.
     andthen (call (ensureHistDir w)) (\<lambda>err.
       case err of
         Some e \<Rightarrow> Fatal (Error e)
       | None \<Rightarrow>
     andthen (if Continue opts then call (loadHist w) else return []) (\<lambda>msgs0.
     andthen (call (sendChat w opts (build_msgs msgs0 (SysPrompt opts) (UserPrompt opts))))
       (\<lambda>res. case res of
          Inl e \<Rightarrow> Fatal (Error e)
        | Inr reply \<Rightarrow>
     andthen (Println reply) (\<lambda>_.
       if Continue opts then appendHist w (UserPrompt opts) reply else return w)))))"


subsection \<open>The Plan 9 variant, \<^verbatim>\<open>slm.go\<close>\<close>

definition HISTDIR :: string where
  "HISTDIR = ''lib/llm''"

definition HISTFILE :: string where
  "HISTFILE = ''llm.history''"

definition wrap :: "string \<Rightarrow> error option \<Rightarrow> error" where
  "wrap context e = CLIError context e"

text \<open>
  \<^verbatim>\<open>fmt.Sprintf\<close> of a format that has no verb, as \<^verbatim>\<open>logit\<close> is called: the format
  itself, followed by \<^verbatim>\<open>%!(EXTRA ...)\<close> when there are arguments to spare (each is
  printed as its Go type and its value; the type is written \<^verbatim>\<open>error\<close> here).
\<close>

definition Sprintf :: "string \<Rightarrow> error list \<Rightarrow> string" where
  "Sprintf format args =
     (if args = [] then format
      else format @ ''%!(EXTRA '' @ joined '', '' (map (\<lambda>e. ''error='' @ Error e) args) @ '')'')"

definition logit :: "string \<Rightarrow> error list \<Rightarrow> 'a proc" where
  "logit format args = (let msg = Sprintf format args in Fatal (Error (wrap msg None)))"

text \<open>
  \<^verbatim>\<open>checkit\<close> builds the wrapped error and drops it: it returns nothing, prints
  nothing and does not leave the process.
\<close>

definition checkit :: "error option \<Rightarrow> string \<Rightarrow> unit" where
  "checkit err context =
     (case err of Some e \<Rightarrow> (let dropped = wrap context (Some e) in ()) | None \<Rightarrow> ())"

text \<open>
  In \<^verbatim>\<open>parseflags\<close> the assignment \<^verbatim>\<open>userp = string(data)\<close> stands inside the
  branch \<^verbatim>\<open>if err != nil\<close>: without a positional argument the prompt is the data
  read when the read failed, and stays empty when it succeeded.
\<close>

definition parseflags :: "world \<Rightarrow> CommandLine \<Rightarrow> Opts_plan9 proc" where
  "parseflags w cl =
     (let apikey = Getenv w ''OPENAI_API_KEY'' in
      andthen (if apikey = [] then logit ''[ERROR]: OPENAI_API_KEY not set'' []
               else return ())
        (\<lambda>_.
      andthen
        (case Args cl of
           arg0 # _ \<Rightarrow> return arg0
         | [] \<Rightarrow>
             (case Stdin w of
                (data, err) \<Rightarrow>
                  call ([Read_Stdin],
                    (if err \<noteq> None
                     then (let u = checkit err ''[ERROR]: prompt could not be read'' in data)
                     else []))))
        (\<lambda>userp.
           let home = Getenv w ''home'';
               home = (if home = [] then Getenv w ''HOME'' else home)
           in return \<lparr>Model = flag_m cl, Temp = flag_t cl, SysPrompt = flag_s cl,
                      UserPrompt = userp, Continue = flag_c cl, APIKey = apikey,
                      Home = home\<rparr>)))"

definition ensurehistdir :: "world \<Rightarrow> string \<Rightarrow> event list \<times> unit" where
  "ensurehistdir w home =
     (let dir = Join [home, HISTDIR] in
      ([Mkdir dir],
       (case MkdirAll w dir of
          Some err \<Rightarrow> checkit (Some err) ''[ERROR]: creating history dir:''
        | None \<Rightarrow> ())))"

definition histpath :: "string \<Rightarrow> string" where
  "histpath home = Join [home, HISTDIR, HISTFILE]"

text \<open>
  In \<^verbatim>\<open>loadhist\<close> an error of \<^verbatim>\<open>ndb.Open\<close> goes to \<^verbatim>\<open>checkit\<close> and the function
  carries on with \<^verbatim>\<open>db.Search\<close>, on the nil database that came with the error.
\<close>

definition loadhist :: "world \<Rightarrow> string \<Rightarrow> Message list proc" where
  "loadhist w home =
     (let path = histpath home in
      andthen (call ([Ndb_Open path], ndb_Open w path))
        (\<lambda>res. case res of
           Inl err \<Rightarrow>
             (let u = checkit (Some err) ''no history file or ndb parse error''
              in go_panic nil_dereference)
         | Inr db \<Rightarrow> return (records_loop (ndb_Search w db ''role'' []) [])))"

definition appendhist :: "world \<Rightarrow> string \<Rightarrow> string \<Rightarrow> string \<Rightarrow> world proc" where
  "appendhist w home userp reply =
     (let path = histpath home in
      andthen (call ([Open_Append path], OpenFile w path))
        (\<lambda>err. case err of
           Some e \<Rightarrow> logit ''[ERROR] open history src: '' [e]
         | None \<Rightarrow> append_lines w path userp reply))"

text \<open>
  \<^verbatim>\<open>sendchat\<close> decodes the response with \<^verbatim>\<open>json.NewDecoder(resp.Body).Decode\<close>:
  a body that cannot be read, or that is not JSON, is a decoding error. The status code
  of the response is not read anywhere in \<^verbatim>\<open>slm.go\<close>.
\<close>

definition sendchat ::
  "world \<Rightarrow> Opts_plan9 \<Rightarrow> Message list \<Rightarrow> event list \<times> (error + string)" where
  "sendchat w opts msgs =
     (let req = \<lparr>ChatRequest.Model = Opts.Model opts, Temperature = Temp opts,
                 Messages = msgs\<rparr> in
      case json_Marshal w req of
        Inl err \<Rightarrow> ([], Inl (wrap ''[ERROR]: marshalling request: '' (Some err)))
      | Inr buf \<Rightarrow>
      (case NewRequest w ''POST'' APIURL buf of
        Inl err \<Rightarrow> ([], Inl (wrap ''[ERROR]: creating request: '' (Some err)))
      | Inr reqhttp0 \<Rightarrow>
      (let reqhttp = reqhttp0\<lparr>Header := [(''Content-Type'', ''application/json''),
                                         (''Authorization'', ''Bearer '' @ APIKey opts)]\<rparr> in
       case Do w of
        Inl err \<Rightarrow> ([Http_Do reqhttp], Inl (wrap ''[ERROR]: request error: '' (Some err)))
      | Inr resp \<Rightarrow>
          ([Http_Do reqhttp],
           (case Body resp of
              Inl err \<Rightarrow> Inl (wrap ''[ERROR]: decode response: '' (Some err))
            | Inr bodyBytes \<Rightarrow>
           (case Unmarshal_ChatResponse (Json resp) of
              Inl err \<Rightarrow> Inl (wrap ''[ERROR]: decode response: '' (Some err))
            | Inr cres \<Rightarrow>
                (case Choices cres of
                   [] \<Rightarrow> Inl (wrap ''[ERROR]: no choices in response'' None)
                 | c # _ \<Rightarrow> Inr (Content (Message c)))))))))"

definition main_plan9 :: "world \<Rightarrow> CommandLine \<Rightarrow> world proc" where
  "main_plan9 w cl =
     andthen (parseflags w cl) (\<lambda>opts.
     andthen (call (ensurehistdir w (Home opts))) (\<lambda>_.
     andthen (if Continue opts then loadhist w (Home opts) else return []) (\<lambda>msgs0.
     andthen (call (sendchat w opts (build_msgs msgs0 (SysPrompt opts) (UserPrompt opts))))
       (\<lambda>res. case res of
          Inl e \<Rightarrow> Fatal (Error e)
        | Inr reply \<Rightarrow>
     andthen (Println reply) (\<lambda>_.
       if Continue opts then appendhist w (Home opts) (UserPrompt opts) reply
       else return w)))))"


subsection \<open>The format of the history file\<close>

text \<open>
  Modelled from the spec: the verb \<^verbatim>\<open>%q\<close> of package \<^verbatim>\<open>fmt\<close> and the package
  \<^verbatim>\<open>github.com/mischief/ndb\<close>, which write and read the history file, are not part of
  the repository. The spec describes the file as a simple attribute-value record text
  format, one record per logical entry, consisting of \<^verbatim>\<open>key="value"\<close> pairs; as an
  ordered append-only sequence of attribute-record lines, a record being one line of the
  file that encodes one message as attribute=value pairs; each attribute value is
  textually quoted so that embedded quote and newline characters are escaped losslessly;
  a file may fail to parse; and loading scans every record, in physical file order.

  Accordingly, \<open>quote_ascii\<close> writes a value between double quotes, a quote and a
  backslash in it preceded by a backslash and a newline written as backslash and
  \<^verbatim>\<open>n\<close> (which is what \<^verbatim>\<open>%q\<close> prints for a text of printable ASCII characters and
  newlines). \<open>read_records\<close> reads one record per non-empty line, in the order of the
  lines; the tuples of a record are separated by blanks and are \<^verbatim>\<open>attr\<close>,
  \<^verbatim>\<open>attr=value\<close> or \<^verbatim>\<open>attr="quoted value"\<close>, a quoted value being read with these
  escapes undone; a quote that is not closed is a parse error. \<open>search_records\<close> is the
  search that loading makes (the programs make one search only, for the attribute
  \<^verbatim>\<open>role\<close> with an empty value): it yields every record of the database, in order.
  \<open>as_specified\<close> is a world with this format.
\<close>

definition quote_char :: "char \<Rightarrow> string" where
  "quote_char ch =
     (if ch = CHR ''\"'' then [CHR 0x5C, CHR ''\"'']
      else if ch = CHR 0x5C then [CHR 0x5C, CHR 0x5C]
      else if ch = CHR 0x0A then [CHR 0x5C, CHR ''n'']
      else [ch])"

definition quote_ascii :: "string \<Rightarrow> string" where
  "quote_ascii s = [CHR ''\"''] @ concat (map quote_char s) @ [CHR ''\"'']"

datatype mode = In_attr | In_bare | In_quoted | In_escape

definition end_tuple :: "string \<Rightarrow> string \<Rightarrow> Record \<Rightarrow> Record" where
  "end_tuple a v tups = (if a = [] then tups else tups @ [\<lparr>Attr = a, Val = v\<rparr>])"

definition end_line :: "Record \<Rightarrow> RecordSet \<Rightarrow> RecordSet" where
  "end_line tups recs = (if tups = [] then recs else recs @ [tups])"

fun reader ::
  "mode \<Rightarrow> string \<Rightarrow> string \<Rightarrow> Record \<Rightarrow> RecordSet \<Rightarrow> string \<Rightarrow> error + RecordSet" where
  "reader md a v tups recs [] =
     (if md = In_quoted \<or> md = In_escape then Inl (Extern ''ndb: unterminated quote'')
      else Inr (end_line (end_tuple a v tups) recs))"
| "reader In_attr a v tups recs (ch # rest) =
     (if ch = CHR 0x0A then reader In_attr [] [] [] (end_line (end_tuple a [] tups) recs) rest
      else if ch = CHR '' '' then reader In_attr [] [] (end_tuple a [] tups) recs rest
      else if ch = CHR ''='' then reader In_bare a [] tups recs rest
      else reader In_attr (a @ [ch]) [] tups recs rest)"
| "reader In_bare a v tups recs (ch # rest) =
     (if ch = CHR 0x0A then reader In_attr [] [] [] (end_line (end_tuple a v tups) recs) rest
      else if ch = CHR '' '' then reader In_attr [] [] (end_tuple a v tups) recs rest
      else if ch = CHR ''\"'' \<and> v = [] then reader In_quoted a [] tups recs rest
      else reader In_bare a (v @ [ch]) tups recs rest)"
| "reader In_quoted a v tups recs (ch # rest) =
     (if ch = CHR ''\"'' then reader In_attr [] [] (end_tuple a v tups) recs rest
      else if ch = CHR 0x5C then reader In_escape a v tups recs rest
      else reader In_quoted a (v @ [ch]) tups recs rest)"
| "reader In_escape a v tups recs (ch # rest) =
     (if ch = CHR ''n'' then reader In_quoted a (v @ [CHR 0x0A]) tups recs rest
      else reader In_quoted a (v @ [ch]) tups recs rest)"

definition read_records :: "string \<Rightarrow> error + RecordSet" where
  "read_records txt = reader In_attr [] [] [] [] txt"

definition search_records :: "RecordSet \<Rightarrow> string \<Rightarrow> string \<Rightarrow> RecordSet" where
  "search_records db attr val = db"



subsection \<open>A world to run the programs in\<close>

text \<open>The response of the specification's example, with the text and its JSON value.\<close>

definition hello_json :: json where
  "hello_json =
     JObject [(''choices'',
       JArray [JObject [(''message'',
         JObject [(''role'', JString ''assistant''), (''content'', JString ''hello'')])]])]"

definition hello_response :: Response where
  "hello_response =
     \<lparr>StatusCode = 200,
      Body = Inr ''{\"choices\":[{\"message\":{\"role\":\"assistant\",\"content\":\"hello\"}}]}'',
      Json = Some hello_json\<rparr>"

text \<open>
  A first run on a machine where everything works: the key is set, the prompt comes on
  standard input, there is no history file yet, the history format is the one above, and
  the service answers \<^verbatim>\<open>hello\<close>.
\<close>

definition demo_world :: world where
  "demo_world =
     \<lparr>Getenv = (\<lambda>v. if v = ''OPENAI_API_KEY'' then ''sk-test''
                    else if v = ''HOME'' then ''/home/glenda''
                    else if v = ''home'' then ''/usr/glenda'' else []),
      Stdin = (''hi'', None),
      UserConfigDir = Inr ''/home/glenda/.config'',
      UserHomeDir = ''/home/glenda'',
      MkdirAll = (\<lambda>path. None),
      Files = (\<lambda>path. None),
      OpenFile = (\<lambda>path. None),
      Quote = quote_ascii,
      ndb_Parse = read_records,
      ndb_Search = search_records,
      json_Marshal = (\<lambda>req. Inr ''{}''),
      NewRequest_err = None,
      Do = Inr hello_response\<rparr>"

definition demo_cl :: CommandLine where
  "demo_cl =
     \<lparr>flag_m = ''gpt-3.5-turbo'', flag_t = 0.7, flag_s = [], flag_c = False, Args = []\<rparr>"


subsection \<open>The vocabulary of the claims\<close>

text \<open>The events that read or write the history file, and the HTTP request.\<close>

fun history_event :: "event \<Rightarrow> bool" where
  "history_event (Ndb_Open path) = True"
| "history_event (Open_Append path) = True"
| "history_event (Write path txt) = True"
| "history_event e = False"

fun is_request :: "event \<Rightarrow> bool" where
  "is_request (Http_Do req) = True"
| "is_request e = False"

definition sent :: "event list \<Rightarrow> bool" where
  "sent es = list_ex is_request es"

text \<open>What a run writes to standard output, one entry per call of \<^verbatim>\<open>Println\<close>.\<close>

fun printed :: "event list \<Rightarrow> string list" where
  "printed [] = []"
| "printed (Print s # es) = s # printed es"
| "printed (e # es) = printed es"

text \<open>The base directory that \<^verbatim>\<open>parseflags\<close> of the Plan 9 variant resolves.\<close>

definition plan9_home :: "world \<Rightarrow> string" where
  "plan9_home w = (if Getenv w ''home'' = [] then Getenv w ''HOME'' else Getenv w ''home'')"

text \<open>The events of resolving the prompt: standard input is read when no argument is given.\<close>

definition prompt_events :: "CommandLine \<Rightarrow> event list" where
  "prompt_events cl = (if Args cl = [] then [Read_Stdin] else [])"






text \<open>
  The message of an API error embedded in a response: \<^verbatim>\<open>errResp.Error.Message\<close> when the
  body decodes into \<^verbatim>\<open>errResp\<close>, empty otherwise.
\<close>

definition embedded_error :: "Response \<Rightarrow> string" where
  "embedded_error resp =
     (case Unmarshal_errResp (Json resp) of Inr msg \<Rightarrow> msg | Inl err \<Rightarrow> [])"

subsection \<open>Worlds for the examples\<close>

text \<open>The credential variable is not set.\<close>

definition no_key_world :: world where
  "no_key_world =
     demo_world\<lparr>Getenv := (\<lambda>v. if v = ''HOME'' then ''/home/glenda'' else [])\<rparr>"

text \<open>Standard input is closed (\<^verbatim>\<open>slm <&-\<close>): reading it fails.\<close>

definition closed_stdin_world :: world where
  "closed_stdin_world =
     demo_world\<lparr>Stdin := ([], Some (Extern ''read /dev/stdin: bad file descriptor''))\<rparr>"






text \<open>The command line of a run with \<^verbatim>\<open>-c\<close>, and a prompt with quotes and a newline.\<close>

definition continue_cl :: CommandLine where
  "continue_cl = demo_cl\<lparr>flag_c := True\<rparr>"


text \<open>
  A response with status 200 whose body has both an error message and a choice; a
  response with status 500 and the body \<^verbatim>\<open>{"error":{}}\<close>; the answer \<^verbatim>\<open>hello\<close> sent
  with status 500; and a history file that cannot be opened for writing.
\<close>

definition embedded_error_json :: json where
  "embedded_error_json =
     JObject [(''error'', JObject [(''message'', JString ''boom'')]),
       (''choices'',
        JArray [JObject [(''message'',
          JObject [(''role'', JString ''assistant''), (''content'', JString ''hello'')])]])]"

definition embedded_error_response :: Response where
  "embedded_error_response =
     \<lparr>StatusCode = 200,
      Body = Inr (''{\"error\":{\"message\":\"boom\"},'' @
                  ''\"choices\":[{\"message\":{\"role\":\"assistant\",\"content\":\"hello\"}}]}''),
      Json = Some embedded_error_json\<rparr>"

definition embedded_error_world :: world where
  "embedded_error_world = demo_world\<lparr>Do := Inr embedded_error_response\<rparr>"

definition server_error_response :: Response where
  "server_error_response =
     \<lparr>StatusCode = 500, Body = Inr ''{\"error\":{}}'',
      Json = Some (JObject [(''error'', JObject [])])\<rparr>"

definition server_error_world :: world where
  "server_error_world = demo_world\<lparr>Do := Inr server_error_response\<rparr>"

definition hello_500_world :: world where
  "hello_500_world = demo_world\<lparr>Do := Inr (hello_response\<lparr>StatusCode := 500\<rparr>)\<rparr>"

definition readonly_history_world :: world where
  "readonly_history_world =
     demo_world\<lparr>OpenFile := (\<lambda>path. Some (Extern (''open '' @ path @ '': permission denied'')))\<rparr>"

text \<open>The request that either program sends in these worlds.\<close>

definition demo_request :: Request where
  "demo_request =
     \<lparr>Method = ''POST'', URL = ''https://api.openai.com/v1/chat/completions'',
      Header = [(''Content-Type'', ''application/json''), (''Authorization'', ''Bearer sk-test'')],
      Payload = ''{}''\<rparr>"

section \<open>Properties\<close>

subsection \<open>Sequencing\<close>

lemmas proc_defs =
  andthen_def call_def return_def Fatal_def events_def exit_status_def Println_def

lemma events_andthen:
  "events (andthen p f) = events p @ (case snd p of Inl n \<Rightarrow> [] | Inr v \<Rightarrow> events (f v))"
  by (simp add: andthen_def events_def split: prod.splits sum.splits)

lemma snd_andthen:
  "snd (andthen p f) = (case snd p of Inl n \<Rightarrow> Inl n | Inr v \<Rightarrow> snd (f v))"
  by (simp add: andthen_def split: prod.splits sum.splits)

lemma events_call [simp]: "events (call p) = fst p" "snd (call p) = Inr (snd p)"
  by (simp_all add: call_def events_def split: prod.splits)

lemma events_return [simp]: "events (return v) = []" "snd (return v) = Inr v"
  by (simp_all add: return_def events_def)

lemma events_Fatal [simp]: "events (Fatal m) = [Log m]" "snd (Fatal m) = Inl 1"
  by (simp_all add: Fatal_def events_def)

lemma events_Println [simp]:
  "events (Println s) = [Print (s @ [CHR 0x0A])]" "snd (Println s) = Inr ()"
  by (simp_all add: Println_def events_def)



lemma events_pair [simp]: "events (es, r) = es"
  by (simp add: events_def)

lemma sent_simps [simp]:
  "sent [] = False" "sent (e # es) = (is_request e \<or> sent es)" "sent (a @ b) = (sent a \<or> sent b)"
  by (simp_all add: sent_def)

lemma printed_append [simp]: "printed (a @ b) = printed a @ printed b"
  by (induction a rule: printed.induct) simp_all

subsection \<open>What the parts of a run do\<close>

lemma sendChat_no_history: "list_all (\<lambda>e. \<not> history_event e) (fst (sendChat w opts msgs))"
  by (simp add: sendChat_def Let_def split: sum.splits)

lemma sendchat_no_history: "list_all (\<lambda>e. \<not> history_event e) (fst (sendchat w opts msgs))"
  by (simp add: sendchat_def Let_def split: sum.splits)

lemma sendChat_printed: "printed (fst (sendChat w opts msgs)) = []"
  by (simp add: sendChat_def Let_def split: sum.splits)

lemma sendchat_printed: "printed (fst (sendchat w opts msgs)) = []"
  by (simp add: sendchat_def Let_def split: sum.splits)

lemma parseFlags_no_history: "list_all (\<lambda>e. \<not> history_event e) (events (parseFlags w cl))"
  by (simp add: parseFlags_def Let_def events_andthen snd_andthen
      split: list.splits prod.splits option.splits)

lemma parseFlags_quiet:
  "\<not> sent (events (parseFlags w cl))" "printed (events (parseFlags w cl)) = []"
  by (simp_all add: parseFlags_def Let_def events_andthen snd_andthen
      split: list.splits prod.splits option.splits)

lemma parseFlags_Continue: "snd (parseFlags w cl) = Inr opts \<Longrightarrow> Continue opts = flag_c cl"
  by (auto simp add: parseFlags_def Let_def snd_andthen
      split: list.splits prod.splits option.splits sum.splits if_splits)

lemma parseflags_no_history: "list_all (\<lambda>e. \<not> history_event e) (events (parseflags w cl))"
  by (simp add: parseflags_def logit_def Let_def events_andthen snd_andthen
      split: list.splits prod.splits option.splits)

lemma parseflags_quiet:
  "\<not> sent (events (parseflags w cl))" "printed (events (parseflags w cl)) = []"
  by (simp_all add: parseflags_def logit_def Let_def events_andthen snd_andthen
      split: list.splits prod.splits option.splits)

lemma parseflags_Continue: "snd (parseflags w cl) = Inr opts \<Longrightarrow> Continue opts = flag_c cl"
  by (auto simp add: parseflags_def logit_def Let_def snd_andthen
      split: list.splits prod.splits option.splits sum.splits if_splits)

lemma parseflags_Home: "snd (parseflags w cl) = Inr opts \<Longrightarrow> Home opts = plan9_home w"
  by (auto simp add: parseflags_def logit_def plan9_home_def Let_def snd_andthen
      split: list.splits prod.splits option.splits sum.splits if_splits)

text \<open>
  A run that issued its request got through \<^verbatim>\<open>parseFlags\<close>, \<^verbatim>\<open>ensureHistDir\<close> and
  the loading of the history; what follows is decided by what \<^verbatim>\<open>sendChat\<close> returns.
\<close>

lemma main_linux_reply:
  assumes s: "\<And>opts msgs. sent (fst (sendChat w opts msgs)) \<Longrightarrow>
                snd (sendChat w opts msgs) = Inr reply"
    and "sent (events (main_linux w cl))"
    and "flag_c cl \<longrightarrow> OpenFile w (histPath w) = None"
  shows "exit_status (main_linux w cl) = 0
       \<and> printed (events (main_linux w cl)) = [reply @ [CHR 0x0A]]"
proof (cases "snd (parseFlags w cl)")
  case (Inl n)
  with assms(2) parseFlags_quiet(1) [of w cl] show ?thesis
    by (simp add: main_linux_def events_andthen)
next
  case (Inr opts)
  note c = parseFlags_Continue [OF Inr]
  let ?msgs0 = "if Continue opts then snd (loadHist w) else []"
  let ?msgs = "build_msgs ?msgs0 (SysPrompt opts) (UserPrompt opts)"
  have "sent (fst (sendChat w opts ?msgs))"
    using assms(2) parseFlags_quiet(1) [of w cl] Inr
    by (auto simp add: main_linux_def events_andthen snd_andthen ensureHistDir_def
        loadHist_def appendHist_def append_lines_def Let_def
        split: option.splits sum.splits if_splits)
  then have r: "snd (sendChat w opts ?msgs) = Inr reply"
    by (rule s)
  have mk: "MkdirAll w (histDir w) = None"
    using assms(2) parseFlags_quiet(1) [of w cl] Inr
    by (auto simp add: main_linux_def events_andthen snd_andthen ensureHistDir_def
        split: option.splits)
  show ?thesis
    using Inr r mk c assms(3) parseFlags_quiet(2) [of w cl] sendChat_printed [of w opts ?msgs]
    by (auto simp add: main_linux_def events_andthen snd_andthen ensureHistDir_def
        loadHist_def appendHist_def append_lines_def Let_def exit_status_def
        split: option.splits sum.splits)
qed

lemma main_linux_error:
  assumes s: "\<And>opts msgs. sent (fst (sendChat w opts msgs)) \<Longrightarrow>
                snd (sendChat w opts msgs) = Inl e"
    and "sent (events (main_linux w cl))"
  shows "exit_status (main_linux w cl) = 1
       \<and> printed (events (main_linux w cl)) = []
       \<and> last (events (main_linux w cl)) = Log (Error e)"
proof (cases "snd (parseFlags w cl)")
  case (Inl n)
  with assms(2) parseFlags_quiet(1) [of w cl] show ?thesis
    by (simp add: main_linux_def events_andthen)
next
  case (Inr opts)
  let ?msgs0 = "if Continue opts then snd (loadHist w) else []"
  let ?msgs = "build_msgs ?msgs0 (SysPrompt opts) (UserPrompt opts)"
  have "sent (fst (sendChat w opts ?msgs))"
    using assms(2) parseFlags_quiet(1) [of w cl] Inr
    by (auto simp add: main_linux_def events_andthen snd_andthen ensureHistDir_def
        loadHist_def appendHist_def append_lines_def Let_def
        split: option.splits sum.splits if_splits)
  then have r: "snd (sendChat w opts ?msgs) = Inl e"
    by (rule s)
  have mk: "MkdirAll w (histDir w) = None"
    using assms(2) parseFlags_quiet(1) [of w cl] Inr
    by (auto simp add: main_linux_def events_andthen snd_andthen ensureHistDir_def
        split: option.splits)
  show ?thesis
    using Inr r mk parseFlags_quiet(2) [of w cl] sendChat_printed [of w opts ?msgs]
    by (cases "Continue opts")
       (auto simp add: main_linux_def events_andthen snd_andthen ensureHistDir_def
        loadHist_def Let_def exit_status_def
        split: option.splits sum.splits)
qed

lemma main_plan9_reply:
  assumes s: "\<And>opts msgs. sent (fst (sendchat w opts msgs)) \<Longrightarrow>
                snd (sendchat w opts msgs) = Inr reply"
    and "sent (events (main_plan9 w cl))"
    and "flag_c cl \<longrightarrow> OpenFile w (histpath (plan9_home w)) = None"
  shows "exit_status (main_plan9 w cl) = 0
       \<and> printed (events (main_plan9 w cl)) = [reply @ [CHR 0x0A]]"
proof (cases "snd (parseflags w cl)")
  case (Inl n)
  with assms(2) parseflags_quiet(1) [of w cl] show ?thesis
    by (simp add: main_plan9_def events_andthen)
next
  case (Inr opts)
  note c = parseflags_Continue [OF Inr]
  note h = parseflags_Home [OF Inr]
  let ?msgs0 = "if Continue opts
    then (case ndb_Open w (histpath (Home opts)) of Inl err \<Rightarrow> []
          | Inr db \<Rightarrow> records_loop (ndb_Search w db ''role'' []) []) else []"
  let ?msgs = "build_msgs ?msgs0 (SysPrompt opts) (UserPrompt opts)"
  have "sent (fst (sendchat w opts ?msgs))"
    using assms(2) parseflags_quiet(1) [of w cl] Inr
    by (auto simp add: main_plan9_def events_andthen snd_andthen ensurehistdir_def
        loadhist_def appendhist_def append_lines_def logit_def go_panic_def Let_def
        split: option.splits sum.splits if_splits)
  then have r: "snd (sendchat w opts ?msgs) = Inr reply"
    by (rule s)
  have ld: "Continue opts \<longrightarrow> (\<exists>db. ndb_Open w (histpath (Home opts)) = Inr db)"
    using assms(2) parseflags_quiet(1) [of w cl] Inr
    by (auto simp add: main_plan9_def events_andthen snd_andthen ensurehistdir_def
        loadhist_def go_panic_def Let_def
        split: option.splits sum.splits if_splits)
  show ?thesis
    using Inr r ld c h assms(3) parseflags_quiet(2) [of w cl] sendchat_printed [of w opts ?msgs]
    by (auto simp add: main_plan9_def events_andthen snd_andthen ensurehistdir_def
        loadhist_def appendhist_def append_lines_def Let_def exit_status_def
        split: option.splits sum.splits)
qed

subsection \<open>Decoding\<close>

lemma into_fields_append:
  "into_fields f (a @ b) v =
     (case into_fields f a v of Inl err \<Rightarrow> Inl err | Inr v' \<Rightarrow> into_fields f b v')"
  by (induction a arbitrary: v) (auto split: sum.splits)

lemma into_fields_skip:
  "(\<And>k j u. (k, j) \<in> set ms \<Longrightarrow> f k j u = Inr u) \<Longrightarrow> into_fields f ms v = Inr v"
  by (induction ms arbitrary: v) auto

text \<open>
  A body that is an object with one member \<^verbatim>\<open>error\<close>, itself an object with one member
  \<^verbatim>\<open>message\<close> that holds a string, among any other members, decodes into
  \<^verbatim>\<open>errResp\<close> without error, and \<^verbatim>\<open>errResp.Error.Message\<close> is that string.
\<close>

lemma Unmarshal_errResp_member:
  assumes "\<forall>(k, j)\<in>set (pre @ post). \<not> key_is ''error'' k"
    and "\<forall>(k, j)\<in>set (pre' @ post'). \<not> key_is ''message'' k"
    and "key_is ''error'' ke" and "key_is ''message'' km"
  shows "Unmarshal_errResp
           (Some (JObject (pre @ (ke, JObject (pre' @ (km, JString msg) # post')) # post))) =
         Inr msg"
proof -
  let ?g = "\<lambda>k' x' msg'. if key_is ''message'' k' then into_string x' msg' else Inr msg'"
  let ?f = "\<lambda>k x m. if key_is ''error'' k then into_struct ?g x m else Inr m"
  have g1: "into_fields ?g pre' u = Inr u" for u
    using assms(2) by (intro into_fields_skip) auto
  have g2: "into_fields ?g post' u = Inr u" for u
    using assms(2) by (intro into_fields_skip) auto
  have f1: "into_fields ?f pre u = Inr u" for u
    using assms(1) by (intro into_fields_skip) auto
  have f2: "into_fields ?f post u = Inr u" for u
    using assms(1) by (intro into_fields_skip) auto
  have inner: "into_struct ?g (JObject (pre' @ (km, JString msg) # post')) u = Inr msg" for u
    using assms(4) by (simp add: into_struct_def into_fields_append g1 g2 into_string_def)
  show ?thesis
    using assms(3)
    by (simp add: Unmarshal_errResp_def into_struct_def [of ?f] into_fields_append f1 f2 inner)
qed

lemmas decode_defs =
  Unmarshal_ChatResponse_def Unmarshal_errResp_def into_struct_def into_Choices_def
  into_Choice_def into_Message_def into_string_def key_is_def ascii_lower_def

lemma decode_hello:
  "Unmarshal_ChatResponse (Some hello_json) =
     Inr \<lparr>Choices = [\<lparr>Message = \<lparr>Role = ''assistant'', Content = ''hello''\<rparr>\<rparr>]\<rparr>"
  "Unmarshal_errResp (Some hello_json) = Inr []"
  by (simp_all add: hello_json_def decode_defs)

lemma decode_embedded_error:
  "Unmarshal_ChatResponse (Some embedded_error_json) =
     Inr \<lparr>Choices = [\<lparr>Message = \<lparr>Role = ''assistant'', Content = ''hello''\<rparr>\<rparr>]\<rparr>"
  "Unmarshal_errResp (Some embedded_error_json) = Inr ''boom''"
  by (simp_all add: embedded_error_json_def decode_defs)

lemma decode_server_error:
  "Unmarshal_ChatResponse (Some (JObject [(''error'', JObject [])])) = Inr \<lparr>Choices = []\<rparr>"
  "Unmarshal_errResp (Some (JObject [(''error'', JObject [])])) = Inr []"
  by (simp_all add: decode_defs)

lemma itoa_500: "itoa 500 = ''500''"
  by code_simp

subsection \<open>Runs in the example worlds\<close>

lemma demo_world_Do: "demo_world\<lparr>Do := Inr hello_response\<rparr> = demo_world"
  by (simp add: demo_world_def)

lemma demo_Do_fields:
  "json_Marshal (demo_world\<lparr>Do := d\<rparr>) = json_Marshal demo_world"
  "NewRequest_err (demo_world\<lparr>Do := d\<rparr>) = None"
  by (simp_all add: demo_world_def)

lemma parseFlags_demo:
  "Getenv w = Getenv demo_world \<Longrightarrow> Stdin w = Stdin demo_world \<Longrightarrow>
   parseFlags w demo_cl =
     ([Read_Stdin], Inr \<lparr>Model = ''gpt-3.5-turbo'', Temp = 0.7, SysPrompt = [],
        UserPrompt = ''hi'', Continue = False, APIKey = ''sk-test''\<rparr>)"
  by (simp add: parseFlags_def demo_world_def demo_cl_def Let_def proc_defs)

lemma parseflags_demo:
  "Getenv w = Getenv demo_world \<Longrightarrow> Stdin w = Stdin demo_world \<Longrightarrow>
   parseflags w demo_cl =
     ([Read_Stdin], Inr \<lparr>Model = ''gpt-3.5-turbo'', Temp = 0.7, SysPrompt = [],
        UserPrompt = [], Continue = False, APIKey = ''sk-test'', Home = ''/usr/glenda''\<rparr>)"
  by (simp add: parseflags_def demo_world_def demo_cl_def Let_def proc_defs)

lemma sendChat_demo:
  assumes "json_Marshal w = json_Marshal demo_world" and "NewRequest_err w = None"
    and "Do w = Inr resp" and "Body resp = Inr body" and "APIKey opts = ''sk-test''"
  shows "sendChat w opts msgs =
     ([Http_Do demo_request],
      if StatusCode resp \<noteq> 200 then Inl (APIStatusError (StatusCode resp) body)
      else (case Unmarshal_errResp (Json resp) of
              Inr msg \<Rightarrow> if msg \<noteq> [] then Inl (APIError msg)
                else (case Unmarshal_ChatResponse (Json resp) of
                Inl err \<Rightarrow> Inl (Errorf_w ''[ERROR] decoding response'' err)
              | Inr cres \<Rightarrow>
                  (case Choices cres of
                     [] \<Rightarrow> Inl (Errorf ''[ERROR] no choices in response'')
                   | c # _ \<Rightarrow> Inr (Content (Message c))))
            | Inl err \<Rightarrow> (case Unmarshal_ChatResponse (Json resp) of
                Inl err \<Rightarrow> Inl (Errorf_w ''[ERROR] decoding response'' err)
              | Inr cres \<Rightarrow>
                  (case Choices cres of
                     [] \<Rightarrow> Inl (Errorf ''[ERROR] no choices in response'')
                   | c # _ \<Rightarrow> Inr (Content (Message c))))))"
  using assms
  by (simp add: sendChat_def NewRequest_def demo_world_def demo_request_def APIURL_def
      StatusOK_def Let_def split: sum.splits)

lemma sendchat_demo:
  assumes "json_Marshal w = json_Marshal demo_world" and "NewRequest_err w = None"
    and "Do w = Inr resp" and "Body resp = Inr body" and "APIKey opts = ''sk-test''"
  shows "sendchat w opts msgs =
     ([Http_Do demo_request],
      (case Unmarshal_ChatResponse (Json resp) of
         Inl err \<Rightarrow> Inl (CLIError ''[ERROR]: decode response: '' (Some err))
       | Inr cres \<Rightarrow>
           (case Choices cres of
              [] \<Rightarrow> Inl (CLIError ''[ERROR]: no choices in response'' None)
            | c # _ \<Rightarrow> Inr (Content (Message c)))))"
  using assms
  by (simp add: sendchat_def NewRequest_def demo_world_def demo_request_def APIURL_def
      wrap_def Let_def split: sum.splits list.splits)

lemma main_linux_demo:
  assumes "\<And>opts msgs. APIKey opts = ''sk-test'' \<Longrightarrow>
             sendChat (demo_world\<lparr>Do := d\<rparr>) opts msgs = ([Http_Do demo_request], r)"
  shows "main_linux (demo_world\<lparr>Do := d\<rparr>) demo_cl =
     ([Read_Stdin, Mkdir ''/home/glenda/.config/slm'', Http_Do demo_request] @
        (case r of Inl e \<Rightarrow> [Log (Error e)] | Inr reply \<Rightarrow> [Print (reply @ [CHR 0x0A])]),
      (case r of Inl e \<Rightarrow> Inl 1 | Inr reply \<Rightarrow> Inr (demo_world\<lparr>Do := d\<rparr>)))"
proof -
  have p: "parseFlags (demo_world\<lparr>Do := d\<rparr>) demo_cl =
     ([Read_Stdin], Inr \<lparr>Model = ''gpt-3.5-turbo'', Temp = 0.7, SysPrompt = [],
        UserPrompt = ''hi'', Continue = False, APIKey = ''sk-test''\<rparr>)"
    by (rule parseFlags_demo) simp_all
  have e: "ensureHistDir (demo_world\<lparr>Do := d\<rparr>) = ([Mkdir ''/home/glenda/.config/slm''], None)"
    by (simp add: ensureHistDir_def histDir_def demo_world_def Join_def AppName_def)
  show ?thesis
    by (cases r) (simp_all add: main_linux_def p e assms proc_defs)
qed

lemma main_plan9_demo:
  assumes "\<And>opts msgs. APIKey opts = ''sk-test'' \<Longrightarrow>
             sendchat (demo_world\<lparr>Do := d\<rparr>) opts msgs = ([Http_Do demo_request], r)"
  shows "main_plan9 (demo_world\<lparr>Do := d\<rparr>) demo_cl =
     ([Read_Stdin, Mkdir ''/usr/glenda/lib/llm'', Http_Do demo_request] @
        (case r of Inl e \<Rightarrow> [Log (Error e)] | Inr reply \<Rightarrow> [Print (reply @ [CHR 0x0A])]),
      (case r of Inl e \<Rightarrow> Inl 1 | Inr reply \<Rightarrow> Inr (demo_world\<lparr>Do := d\<rparr>)))"
proof -
  have p: "parseflags (demo_world\<lparr>Do := d\<rparr>) demo_cl =
     ([Read_Stdin], Inr \<lparr>Model = ''gpt-3.5-turbo'', Temp = 0.7, SysPrompt = [],
        UserPrompt = [], Continue = False, APIKey = ''sk-test'', Home = ''/usr/glenda''\<rparr>)"
    by (rule parseflags_demo) simp_all
  have e: "ensurehistdir (demo_world\<lparr>Do := d\<rparr>) ''/usr/glenda'' =
      ([Mkdir ''/usr/glenda/lib/llm''], ())"
    by (simp add: ensurehistdir_def Join_def HISTDIR_def)
  show ?thesis
    by (cases r) (simp_all add: main_plan9_def p e assms proc_defs)
qed

subsection \<open>Without the credential\<close>

text \<open>
  Claim C1. When \<^verbatim>\<open>OPENAI_API_KEY\<close> is unset or empty, either program logs that the
  key is not set and leaves with status 1; this is its only effect, so no HTTP request
  is issued (\<^verbatim>\<open>sendChat\<close>, \<^verbatim>\<open>sendchat\<close> are not reached).
\<close>

theorem no_credential_no_request:
  assumes "Getenv w ''OPENAI_API_KEY'' = []"
  shows "exit_status (main_linux w cl) = 1
       \<and> events (main_linux w cl) = [Log ''[ERROR] OPENAI_API_KEY not set'']
       \<and> \<not> sent (events (main_linux w cl))
       \<and> exit_status (main_plan9 w cl) = 1
       \<and> events (main_plan9 w cl) = [Log ''[ERROR]: OPENAI_API_KEY not set'']
       \<and> \<not> sent (events (main_plan9 w cl))"
  using assms
  by (simp add: main_linux_def main_plan9_def parseFlags_def parseflags_def logit_def
      Sprintf_def wrap_def proc_defs sent_def)

theorem no_credential_no_request_witness:
  "Getenv no_key_world ''OPENAI_API_KEY'' = []
   \<and> exit_status (main_linux no_key_world demo_cl) = 1
   \<and> \<not> sent (events (main_linux no_key_world demo_cl))
   \<and> exit_status (main_plan9 no_key_world demo_cl) = 1
   \<and> \<not> sent (events (main_plan9 no_key_world demo_cl))"
proof -
  have k: "Getenv no_key_world ''OPENAI_API_KEY'' = []"
    by (simp add: no_key_world_def)
  from no_credential_no_request [OF k, of demo_cl] k show ?thesis by blast
qed

subsection \<open>A response with a choice\<close>

lemma sendChat_reply:
  assumes "Do w = Inr resp" and "Body resp = Inr body"
    and "Unmarshal_ChatResponse (Json resp) = Inr cres" and "Choices cres = c # cs"
    and "StatusCode resp = 200" and "embedded_error resp = []"
    and "sent (fst (sendChat w opts msgs))"
  shows "snd (sendChat w opts msgs) = Inr (Content (Message c))"
  using assms
  by (auto simp add: sendChat_def embedded_error_def StatusOK_def Let_def split: sum.splits)

lemma sendchat_reply:
  assumes "Do w = Inr resp" and "Body resp = Inr body"
    and "Unmarshal_ChatResponse (Json resp) = Inr cres" and "Choices cres = c # cs"
    and "sent (fst (sendchat w opts msgs))"
  shows "snd (sendchat w opts msgs) = Inr (Content (Message c))"
  using assms
  by (auto simp add: sendchat_def Let_def split: sum.splits)

text \<open>
  Claim C2, as stated, fails. In the Linux program a response with status 200 whose body
  has a non-empty list of choices and also a non-empty \<^verbatim>\<open>error.message\<close> makes
  \<^verbatim>\<open>sendChat\<close> return the API error: nothing is printed and the status is 1. And a
  run with \<^verbatim>\<open>-c\<close> that cannot open its history file for appending prints the reply and
  then leaves with status 1.
\<close>

theorem embedded_error_hides_choice_counterexample:
  "StatusCode embedded_error_response = 200
   \<and> map_sum id Choices (Unmarshal_ChatResponse (Json embedded_error_response)) =
       Inr [\<lparr>Message = \<lparr>Role = ''assistant'', Content = ''hello''\<rparr>\<rparr>]
   \<and> main_linux embedded_error_world demo_cl =
       ([Read_Stdin, Mkdir ''/home/glenda/.config/slm'', Http_Do demo_request,
         Log ''OpenAI API error: boom''], Inl 1)
   \<and> Do readonly_history_world = Inr hello_response
   \<and> main_linux readonly_history_world continue_cl =
       ([Read_Stdin, Mkdir ''/home/glenda/.config/slm'',
         Ndb_Open ''/home/glenda/.config/slm/history.ndb'', Http_Do demo_request,
         Print (''hello'' @ [CHR 0x0A]), Open_Append ''/home/glenda/.config/slm/history.ndb'',
         Log (''[ERROR] opening history file: '' @
              ''open /home/glenda/.config/slm/history.ndb: permission denied'')], Inl 1)"
proof -
  have s: "sendChat (demo_world\<lparr>Do := Inr embedded_error_response\<rparr>) opts msgs =
      ([Http_Do demo_request], Inl (APIError ''boom''))" if "APIKey opts = ''sk-test''" for opts msgs
    using that
    by (subst sendChat_demo [where resp = embedded_error_response])
       (simp_all add: demo_Do_fields embedded_error_response_def decode_embedded_error)
  have m1: "main_linux embedded_error_world demo_cl =
       ([Read_Stdin, Mkdir ''/home/glenda/.config/slm'', Http_Do demo_request,
         Log ''OpenAI API error: boom''], Inl 1)"
    using main_linux_demo [OF s] by (simp add: embedded_error_world_def)
  have p: "parseFlags readonly_history_world continue_cl =
     ([Read_Stdin], Inr \<lparr>Model = ''gpt-3.5-turbo'', Temp = 0.7, SysPrompt = [],
        UserPrompt = ''hi'', Continue = True, APIKey = ''sk-test''\<rparr>)"
    by (simp add: parseFlags_def readonly_history_world_def demo_world_def continue_cl_def
        demo_cl_def Let_def proc_defs)
  have hp: "histPath readonly_history_world = ''/home/glenda/.config/slm/history.ndb''"
    and hd: "histDir readonly_history_world = ''/home/glenda/.config/slm''"
    by (simp_all add: histPath_def histDir_def readonly_history_world_def demo_world_def
        Join_def AppName_def HistFile_def)
  have e: "ensureHistDir readonly_history_world = ([Mkdir ''/home/glenda/.config/slm''], None)"
    by (simp add: ensureHistDir_def hd) (simp add: readonly_history_world_def demo_world_def)
  have l: "loadHist readonly_history_world =
      ([Ndb_Open ''/home/glenda/.config/slm/history.ndb''], [])"
    by (simp add: loadHist_def ndb_Open_def hp)
       (simp add: readonly_history_world_def demo_world_def)
  have d: "Do readonly_history_world = Inr hello_response"
    by (simp add: readonly_history_world_def demo_world_def)
  have s2: "sendChat readonly_history_world opts msgs = ([Http_Do demo_request], Inr ''hello'')"
    if "APIKey opts = ''sk-test''" for opts msgs
    using that d
    by (subst sendChat_demo [where resp = hello_response])
       (simp_all add: readonly_history_world_def demo_world_def hello_response_def decode_hello)
  have a: "appendHist readonly_history_world userp reply =
      ([Open_Append ''/home/glenda/.config/slm/history.ndb'',
        Log (''[ERROR] opening history file: '' @
             ''open /home/glenda/.config/slm/history.ndb: permission denied'')], Inl 1)"
    for userp reply
    by (simp add: appendHist_def hp andthen_def call_def)
       (simp add: readonly_history_world_def demo_world_def Fatal_def)
  have m2: "main_linux readonly_history_world continue_cl =
       ([Read_Stdin, Mkdir ''/home/glenda/.config/slm'',
         Ndb_Open ''/home/glenda/.config/slm/history.ndb'', Http_Do demo_request,
         Print (''hello'' @ [CHR 0x0A]), Open_Append ''/home/glenda/.config/slm/history.ndb'',
         Log (''[ERROR] opening history file: '' @
              ''open /home/glenda/.config/slm/history.ndb: permission denied'')], Inl 1)"
    by (simp add: main_linux_def p e l s2 a proc_defs)
  show ?thesis
    using m1 m2 d by (simp add: embedded_error_response_def decode_embedded_error)
qed

text \<open>
  Claim C2, amended. Let the service respond with a body that decodes into a non-empty
  list of choices, and let the run issue its request. In the Linux program, if the
  status is 200 and the body carries no non-empty \<^verbatim>\<open>error.message\<close>, \<^verbatim>\<open>sendChat\<close>
  returns the content of the first choice, and the program prints that content followed
  by a newline, and nothing else, on standard output; it leaves with status 0 provided
  that, with \<^verbatim>\<open>-c\<close>, the history file can be opened for appending. The Plan 9 program
  does the same whatever the status and the rest of the body. For the body
  \<^verbatim>\<open>{"choices":[{"message":{"role":"assistant","content":"hello"}}]}\<close> the output is
  \<^verbatim>\<open>hello\<close> and a newline.
\<close>

theorem first_choice_is_printed:
  assumes "Do w = Inr resp" and "Body resp = Inr body"
    and "Unmarshal_ChatResponse (Json resp) = Inr cres" and "Choices cres = c # cs"
  shows "(StatusCode resp = 200 \<and> embedded_error resp = [] \<longrightarrow>
            (sent (fst (sendChat w opts msgs)) \<longrightarrow>
               snd (sendChat w opts msgs) = Inr (Content (Message c)))
          \<and> (sent (events (main_linux w cl))
               \<and> (flag_c cl \<longrightarrow> OpenFile w (histPath w) = None) \<longrightarrow>
               exit_status (main_linux w cl) = 0
               \<and> printed (events (main_linux w cl)) = [Content (Message c) @ [CHR 0x0A]]))
       \<and> (sent (fst (sendchat w opts9 msgs)) \<longrightarrow>
            snd (sendchat w opts9 msgs) = Inr (Content (Message c)))
       \<and> (sent (events (main_plan9 w cl))
            \<and> (flag_c cl \<longrightarrow> OpenFile w (histpath (plan9_home w)) = None) \<longrightarrow>
            exit_status (main_plan9 w cl) = 0
            \<and> printed (events (main_plan9 w cl)) = [Content (Message c) @ [CHR 0x0A]])"
  using sendChat_reply [OF assms] sendchat_reply [OF assms]
    main_linux_reply [of w "Content (Message c)" cl]
    main_plan9_reply [of w "Content (Message c)" cl]
  by blast

theorem first_choice_is_printed_witness:
  "Do demo_world = Inr hello_response
   \<and> exit_status (main_linux demo_world demo_cl) = 0
   \<and> printed (events (main_linux demo_world demo_cl)) = [''hello'' @ [CHR 0x0A]]
   \<and> exit_status (main_plan9 demo_world demo_cl) = 0
   \<and> printed (events (main_plan9 demo_world demo_cl)) = [''hello'' @ [CHR 0x0A]]"
proof -
  let ?c = "\<lparr>Message = \<lparr>Role = ''assistant'', Content = ''hello''\<rparr>\<rparr>"
  have d: "Do demo_world = Inr hello_response"
    by (simp add: demo_world_def)
  have b: "Body hello_response =
      Inr ''{\"choices\":[{\"message\":{\"role\":\"assistant\",\"content\":\"hello\"}}]}''"
    by (simp add: hello_response_def)
  have u: "Unmarshal_ChatResponse (Json hello_response) = Inr \<lparr>Choices = [?c]\<rparr>"
    by (simp add: hello_response_def decode_hello)
  have ch: "Choices \<lparr>Choices = [?c]\<rparr> = ?c # []"
    by simp
  have st: "StatusCode hello_response = 200" "embedded_error hello_response = []"
    by (simp_all add: hello_response_def embedded_error_def decode_hello)
  have s1: "sendChat (demo_world\<lparr>Do := Inr hello_response\<rparr>) opts msgs =
      ([Http_Do demo_request], Inr ''hello'')" if "APIKey opts = ''sk-test''" for opts msgs
    using that
    by (subst sendChat_demo [where resp = hello_response])
       (simp_all add: demo_Do_fields hello_response_def decode_hello)
  have s2: "sendchat (demo_world\<lparr>Do := Inr hello_response\<rparr>) opts msgs =
      ([Http_Do demo_request], Inr ''hello'')" if "APIKey opts = ''sk-test''" for opts msgs
    using that
    by (subst sendchat_demo [where resp = hello_response])
       (simp_all add: demo_Do_fields hello_response_def decode_hello)
  have r1: "sent (events (main_linux demo_world demo_cl))"
    using main_linux_demo [OF s1] by (simp add: demo_world_Do)
  have r2: "sent (events (main_plan9 demo_world demo_cl))"
    using main_plan9_demo [OF s2] by (simp add: demo_world_Do)
  have nc: "\<not> flag_c demo_cl"
    by (simp add: demo_cl_def)
  from first_choice_is_printed [OF d b u ch, of _ _ demo_cl] st r1 r2 nc d
  show ?thesis by simp
qed

subsection \<open>A response with a status other than 200\<close>

text \<open>
  Claim C3, as stated, fails for the Plan 9 program, which never reads the status code.
  For HTTP 500 with the body \<^verbatim>\<open>{"error":{}}\<close> it decodes the body as a list of choices,
  finds none and reports that, not the status; and a response with status 500 that
  carries a choice is printed, with exit status 0.
\<close>

theorem plan9_ignores_status_counterexample:
  "StatusCode server_error_response = 500
   \<and> main_plan9 server_error_world demo_cl =
       ([Read_Stdin, Mkdir ''/usr/glenda/lib/llm'', Http_Do demo_request,
         Log ''[ERROR]: no choices in response''], Inl 1)
   \<and> events (main_plan9 hello_500_world demo_cl) =
       [Read_Stdin, Mkdir ''/usr/glenda/lib/llm'', Http_Do demo_request,
        Print (''hello'' @ [CHR 0x0A])]
   \<and> exit_status (main_plan9 hello_500_world demo_cl) = 0"
proof -
  have s: "sendchat (demo_world\<lparr>Do := Inr server_error_response\<rparr>) opts msgs =
      ([Http_Do demo_request], Inl (CLIError ''[ERROR]: no choices in response'' None))"
    if "APIKey opts = ''sk-test''" for opts msgs
    using that
    by (subst sendchat_demo [where resp = server_error_response])
       (simp_all add: demo_Do_fields server_error_response_def decode_server_error)
  have t: "sendchat (demo_world\<lparr>Do := Inr (hello_response\<lparr>StatusCode := 500\<rparr>)\<rparr>) opts msgs =
      ([Http_Do demo_request], Inr ''hello'')" if "APIKey opts = ''sk-test''" for opts msgs
    using that
    by (subst sendchat_demo [where resp = "hello_response\<lparr>StatusCode := 500\<rparr>"])
       (simp_all add: demo_Do_fields hello_response_def decode_hello)
  show ?thesis
    using main_plan9_demo [OF s] main_plan9_demo [OF t]
    by (simp add: server_error_world_def hello_500_world_def exit_status_def)
       (simp add: server_error_response_def)
qed

text \<open>
  Claim C3, amended. In the Linux program, for every response whose status is not 200
  and whose body was read, \<^verbatim>\<open>sendChat\<close> fails with the API error that carries the
  status code and the raw text of the body; the program prints nothing on standard
  output, logs that error, with the status code in decimal, as its last act and leaves
  with status 1. The JSON reading of the body plays no part: \<^verbatim>\<open>sendChat\<close> returns the
  same for any other. The Plan 9 program does not look at the status: \<^verbatim>\<open>sendchat\<close>
  returns the same for any other status.
\<close>

theorem status_error_is_reported:
  assumes "Do w = Inr resp" and "Body resp = Inr body" and "StatusCode resp \<noteq> 200"
  shows "(sent (fst (sendChat w opts msgs)) \<longrightarrow>
            snd (sendChat w opts msgs) = Inl (APIStatusError (StatusCode resp) body))
       \<and> (sent (events (main_linux w cl)) \<longrightarrow>
            exit_status (main_linux w cl) = 1
            \<and> printed (events (main_linux w cl)) = []
            \<and> last (events (main_linux w cl)) =
                Log (''OpenAI API error: status '' @ itoa (StatusCode resp)
                       @ '', body: '' @ body))
       \<and> sendChat (w\<lparr>Do := Inr (resp\<lparr>Json := j\<rparr>)\<rparr>) opts msgs = sendChat w opts msgs
       \<and> sendchat (w\<lparr>Do := Inr (resp\<lparr>StatusCode := n\<rparr>)\<rparr>) opts9 msgs
           = sendchat w opts9 msgs"
proof -
  have a: "snd (sendChat w opts msgs) = Inl (APIStatusError (StatusCode resp) body)"
    if "sent (fst (sendChat w opts msgs))" for opts msgs
    using that assms
    by (auto simp add: sendChat_def StatusOK_def Let_def split: sum.splits)
  have b: "sendChat (w\<lparr>Do := Inr (resp\<lparr>Json := j\<rparr>)\<rparr>) opts msgs = sendChat w opts msgs"
    using assms
    by (simp add: sendChat_def NewRequest_def StatusOK_def Let_def split: sum.splits option.splits)
  have c: "sendchat (w\<lparr>Do := Inr (resp\<lparr>StatusCode := n\<rparr>)\<rparr>) opts9 msgs
           = sendchat w opts9 msgs"
    using assms
    by (simp add: sendchat_def NewRequest_def Let_def split: sum.splits option.splits)
  from a b c main_linux_error [of w "APIStatusError (StatusCode resp) body" cl, OF a]
  show ?thesis by simp
qed

theorem status_error_is_reported_witness:
  "StatusCode server_error_response \<noteq> 200
   \<and> exit_status (main_linux server_error_world demo_cl) = 1
   \<and> printed (events (main_linux server_error_world demo_cl)) = []
   \<and> last (events (main_linux server_error_world demo_cl)) =
       Log ''OpenAI API error: status 500, body: {\"error\":{}}''"
proof -
  have d: "Do server_error_world = Inr server_error_response"
    by (simp add: server_error_world_def)
  have b: "Body server_error_response = Inr ''{\"error\":{}}''"
    and st: "StatusCode server_error_response \<noteq> 200"
    and st5: "StatusCode server_error_response = 500"
    by (simp_all add: server_error_response_def)
  have s1: "sendChat (demo_world\<lparr>Do := Inr server_error_response\<rparr>) opts msgs =
      ([Http_Do demo_request], Inl (APIStatusError 500 ''{\"error\":{}}''))"
    if "APIKey opts = ''sk-test''" for opts msgs
    using that
    by (subst sendChat_demo [where resp = server_error_response])
       (simp_all add: demo_Do_fields server_error_response_def)
  have r1: "sent (events (main_linux server_error_world demo_cl))"
    using main_linux_demo [OF s1] by (simp add: server_error_world_def)
  from status_error_is_reported [OF d b st, of _ _ demo_cl] r1 st
  show ?thesis by (simp add: st5 itoa_500)
qed

subsection \<open>Loading the history\<close>









lemma histpath_glenda: "histpath ''/usr/glenda'' = ''/usr/glenda/lib/llm/llm.history''"
  by (simp add: histpath_def Join_def HISTDIR_def HISTFILE_def)



subsection \<open>A history file that is missing or does not parse\<close>

text \<open>
  In the Linux program an error of \<^verbatim>\<open>ndb.Open\<close> makes \<^verbatim>\<open>loadHist\<close> return no
  message, and the run goes on.
\<close>

lemma loadHist_without_history:
  "ndb_Open w (histPath w) = Inl err \<Longrightarrow> loadHist w = ([Ndb_Open (histPath w)], [])"
  by (simp add: loadHist_def)

text \<open>In the Plan 9 program the same error ends the process.\<close>

lemma loadhist_without_history:
  "ndb_Open w (histpath home) = Inl err \<Longrightarrow>
     loadhist w home = ([Ndb_Open (histpath home), Log (''panic: '' @ nil_dereference)], Inl 2)"
  by (simp add: loadhist_def Let_def go_panic_def proc_defs)

text \<open>
  Claim C5 holds for \<^verbatim>\<open>loadHist\<close> and fails for \<^verbatim>\<open>loadhist\<close>: on a first run of
  the Plan 9 program with \<^verbatim>\<open>-c\<close>, when there is no history file yet, \<^verbatim>\<open>loadhist\<close>
  does not return an empty list; the process panics in \<^verbatim>\<open>db.Search\<close> and leaves
  with status 2, before any request.
\<close>

theorem loadhist_panics_without_history:
  "Files demo_world (histpath ''/usr/glenda'') = None
   \<and> loadhist demo_world ''/usr/glenda'' =
       ([Ndb_Open ''/usr/glenda/lib/llm/llm.history'',
         Log ''panic: runtime error: invalid memory address or nil pointer dereference''],
        Inl 2)
   \<and> main_plan9 demo_world continue_cl =
       ([Read_Stdin, Mkdir ''/usr/glenda/lib/llm'',
         Ndb_Open ''/usr/glenda/lib/llm/llm.history'',
         Log ''panic: runtime error: invalid memory address or nil pointer dereference''],
        Inl 2)"
proof -
  have f: "Files demo_world (histpath ''/usr/glenda'') = None"
    by (simp add: demo_world_def)
  then have o: "ndb_Open demo_world (histpath ''/usr/glenda'') =
      Inl (Extern (''open '' @ histpath ''/usr/glenda'' @ '': no such file or directory''))"
    by (simp add: ndb_Open_def)
  have l: "loadhist demo_world ''/usr/glenda'' =
       ([Ndb_Open ''/usr/glenda/lib/llm/llm.history'',
         Log ''panic: runtime error: invalid memory address or nil pointer dereference''],
        Inl 2)"
    using loadhist_without_history [OF o] by (simp add: histpath_glenda nil_dereference_def)
  have p: "parseflags demo_world continue_cl =
      ([Read_Stdin], Inr \<lparr>Model = ''gpt-3.5-turbo'', Temp = 0.7, SysPrompt = [],
         UserPrompt = [], Continue = True, APIKey = ''sk-test'', Home = ''/usr/glenda''\<rparr>)"
    by (simp add: parseflags_def demo_world_def continue_cl_def demo_cl_def Let_def proc_defs)
  have m: "main_plan9 demo_world continue_cl =
       ([Read_Stdin, Mkdir ''/usr/glenda/lib/llm'',
         Ndb_Open ''/usr/glenda/lib/llm/llm.history'',
         Log ''panic: runtime error: invalid memory address or nil pointer dereference''],
        Inl 2)"
    by (simp add: main_plan9_def p l ensurehistdir_def Let_def Join_def HISTDIR_def proc_defs)
  from f l m show ?thesis by simp
qed

subsection \<open>Appending to the history and loading it again\<close>
















subsection \<open>The prompt from standard input\<close>

text \<open>
  In the Linux program, without a positional argument, the prompt is all of standard
  input, and a failure to read it ends the run with status 1 before any request.
\<close>

lemma parseFlags_reads_stdin:
  assumes "Getenv w ''OPENAI_API_KEY'' \<noteq> []" and "Args cl = []"
  shows "Stdin w = (data, None) \<longrightarrow> map_sum id UserPrompt (snd (parseFlags w cl)) = Inr data"
    and "Stdin w = (data, Some err) \<longrightarrow>
           exit_status (main_linux w cl) = 1 \<and> \<not> sent (events (main_linux w cl))"
  using assms
  by (simp_all add: parseFlags_def main_linux_def Let_def proc_defs sent_def)

text \<open>
  Claim C7 fails for the Plan 9 program. Without a positional argument and with
  \<^verbatim>\<open>hi\<close> on standard input, the prompt that \<^verbatim>\<open>parseflags\<close> resolves is empty, not
  \<^verbatim>\<open>hi\<close>; and when reading standard input fails, the run does not end: it issues the
  request and leaves with status 0.
\<close>

theorem parseflags_drops_stdin:
  "Args demo_cl = [] \<and> Stdin demo_world = (''hi'', None)
   \<and> map_sum id UserPrompt (snd (parseflags demo_world demo_cl)) = Inr []
   \<and> Stdin closed_stdin_world = ([], Some (Extern ''read /dev/stdin: bad file descriptor''))
   \<and> exit_status (main_plan9 closed_stdin_world demo_cl) = 0
   \<and> sent (events (main_plan9 closed_stdin_world demo_cl))"
proof -
  have p: "parseflags demo_world demo_cl =
      ([Read_Stdin], Inr \<lparr>Model = ''gpt-3.5-turbo'', Temp = 0.7, SysPrompt = [],
         UserPrompt = [], Continue = False, APIKey = ''sk-test'', Home = ''/usr/glenda''\<rparr>)"
    by (simp add: parseflags_def demo_world_def demo_cl_def Let_def proc_defs)
  have q: "parseflags closed_stdin_world demo_cl =
      ([Read_Stdin], Inr \<lparr>Model = ''gpt-3.5-turbo'', Temp = 0.7, SysPrompt = [],
         UserPrompt = [], Continue = False, APIKey = ''sk-test'', Home = ''/usr/glenda''\<rparr>)"
    by (simp add: parseflags_def closed_stdin_world_def demo_world_def demo_cl_def Let_def
        checkit_def proc_defs)
  have s: "sendchat closed_stdin_world opts msgs =
      ([Http_Do \<lparr>Method = ''POST'', URL = APIURL,
                   Header = [(''Content-Type'', ''application/json''),
                             (''Authorization'', ''Bearer '' @ APIKey opts)],
                   Payload = ''{}''\<rparr>], Inr ''hello'')" for opts msgs
    by (simp add: sendchat_def closed_stdin_world_def demo_world_def NewRequest_def
        hello_response_def hello_json_def Unmarshal_ChatResponse_def into_struct_def
        into_Choices_def into_Choice_def into_Message_def into_string_def key_is_def
        ascii_lower_def)
  have m: "exit_status (main_plan9 closed_stdin_world demo_cl) = 0
      \<and> sent (events (main_plan9 closed_stdin_world demo_cl))"
    by (simp add: main_plan9_def q s ensurehistdir_def Let_def sent_def proc_defs)
  show ?thesis
    using m by (simp add: p) (simp add: demo_cl_def demo_world_def closed_stdin_world_def)
qed

subsection \<open>An API error embedded in the body\<close>

text \<open>
  Claim C8, as stated, fails for the Plan 9 program, which has no such check: a response
  with status 200 whose body carries the error message \<^verbatim>\<open>boom\<close> beside a choice is
  answered by printing the choice, with exit status 0.
\<close>

theorem plan9_ignores_embedded_error_counterexample:
  "map_sum id (\<lambda>msg. msg \<noteq> []) (Unmarshal_errResp (Json embedded_error_response)) = Inr True
   \<and> events (main_plan9 embedded_error_world demo_cl) =
       [Read_Stdin, Mkdir ''/usr/glenda/lib/llm'', Http_Do demo_request,
        Print (''hello'' @ [CHR 0x0A])]
   \<and> exit_status (main_plan9 embedded_error_world demo_cl) = 0"
proof -
  have s: "sendchat (demo_world\<lparr>Do := Inr embedded_error_response\<rparr>) opts msgs =
      ([Http_Do demo_request], Inr ''hello'')" if "APIKey opts = ''sk-test''" for opts msgs
    using that
    by (subst sendchat_demo [where resp = embedded_error_response])
       (simp_all add: demo_Do_fields embedded_error_response_def decode_embedded_error)
  show ?thesis
    using main_plan9_demo [OF s]
    by (simp add: embedded_error_world_def exit_status_def)
       (simp add: embedded_error_response_def decode_embedded_error)
qed

text \<open>
  Claim C8, amended. In the Linux program, for every response whose body was read and
  decodes into \<^verbatim>\<open>errResp\<close> with a non-empty \<^verbatim>\<open>error.message\<close> (lemma
  \<open>Unmarshal_errResp_member\<close> gives the shape of such a body), \<^verbatim>\<open>sendChat\<close> returns
  no reply, whatever choices the body holds: with status 200 it fails with the API
  error that carries the message, with another status with the API error that carries
  the status code and the raw body. The program prints nothing on standard output, logs
  the error as its last act and leaves with status 1.
\<close>

theorem embedded_error_is_reported:
  assumes "Do w = Inr resp" and "Body resp = Inr body"
    and "Unmarshal_errResp (Json resp) = Inr msg" and "msg \<noteq> []"
  shows "(sent (fst (sendChat w opts msgs)) \<longrightarrow>
            snd (sendChat w opts msgs) =
              Inl (if StatusCode resp = 200 then APIError msg
                   else APIStatusError (StatusCode resp) body))
       \<and> (sent (events (main_linux w cl)) \<longrightarrow>
            exit_status (main_linux w cl) = 1
            \<and> printed (events (main_linux w cl)) = []
            \<and> last (events (main_linux w cl)) =
                Log (Error (if StatusCode resp = 200 then APIError msg
                            else APIStatusError (StatusCode resp) body)))"
proof -
  let ?e = "if StatusCode resp = 200 then APIError msg
            else APIStatusError (StatusCode resp) body"
  have a: "snd (sendChat w opts msgs) = Inl ?e"
    if "sent (fst (sendChat w opts msgs))" for opts msgs
    using that assms
    by (auto simp add: sendChat_def StatusOK_def Let_def split: sum.splits)
  from a main_linux_error [of w ?e cl, OF a]
  show ?thesis by blast
qed

theorem embedded_error_is_reported_witness:
  "Unmarshal_errResp (Json embedded_error_response) = Inr ''boom''
   \<and> StatusCode embedded_error_response = 200
   \<and> exit_status (main_linux embedded_error_world demo_cl) = 1
   \<and> printed (events (main_linux embedded_error_world demo_cl)) = []
   \<and> last (events (main_linux embedded_error_world demo_cl)) = Log ''OpenAI API error: boom''"
proof -
  have d: "Do embedded_error_world = Inr embedded_error_response"
    by (simp add: embedded_error_world_def)
  obtain body where b: "Body embedded_error_response = Inr body"
    by (simp add: embedded_error_response_def)
  have u: "Unmarshal_errResp (Json embedded_error_response) = Inr ''boom''"
    unfolding embedded_error_response_def embedded_error_json_def
    using Unmarshal_errResp_member [of "[]" _ "[]" "[]" "''error''" "''message''" "''boom''"]
    by (simp add: key_is_def ascii_lower_def)
  have n: "''boom'' \<noteq> []"
    by simp
  have st: "StatusCode embedded_error_response = 200"
    by (simp add: embedded_error_response_def)
  have s1: "sendChat (demo_world\<lparr>Do := Inr embedded_error_response\<rparr>) opts msgs =
      ([Http_Do demo_request], Inl (APIError ''boom''))" if "APIKey opts = ''sk-test''" for opts msgs
    using that
    by (subst sendChat_demo [where resp = embedded_error_response])
       (simp_all add: demo_Do_fields embedded_error_response_def decode_embedded_error)
  have r1: "sent (events (main_linux embedded_error_world demo_cl))"
    using main_linux_demo [OF s1] by (simp add: embedded_error_world_def)
  from embedded_error_is_reported [OF d b u n, of _ _ demo_cl] r1 u st
  show ?thesis by simp
qed

subsection \<open>Without the continue flag\<close>

text \<open>
  Claim C9. Without \<^verbatim>\<open>-c\<close>, no event of a run opens the history file for reading
  (\<^verbatim>\<open>ndb.Open\<close>, in \<^verbatim>\<open>loadHist\<close>) or for appending, or writes to it
  (\<^verbatim>\<open>appendHist\<close>), in either program, whatever the remote call yields; and when
  \<^verbatim>\<open>main\<close> returns, the files are as they were.
\<close>

theorem no_continue_no_history:
  assumes "\<not> flag_c cl"
  shows "list_all (\<lambda>e. \<not> history_event e) (events (main_linux w cl))
       \<and> (case snd (main_linux w cl) of Inl n \<Rightarrow> True | Inr w' \<Rightarrow> w' = w)
       \<and> list_all (\<lambda>e. \<not> history_event e) (events (main_plan9 w cl))
       \<and> (case snd (main_plan9 w cl) of Inl n \<Rightarrow> True | Inr w' \<Rightarrow> w' = w)"
proof -
  have l1: "list_all (\<lambda>e. \<not> history_event e) (events (main_linux w cl))"
    using assms parseFlags_no_history [of w cl] sendChat_no_history
    by (auto simp add: main_linux_def events_andthen snd_andthen ensureHistDir_def
        dest!: parseFlags_Continue split: sum.splits option.splits)
  have l2: "case snd (main_linux w cl) of Inl n \<Rightarrow> True | Inr w' \<Rightarrow> w' = w"
    using assms
    by (auto simp add: main_linux_def snd_andthen
        dest!: parseFlags_Continue split: sum.splits option.splits)
  have p1: "list_all (\<lambda>e. \<not> history_event e) (events (main_plan9 w cl))"
    using assms parseflags_no_history [of w cl] sendchat_no_history
    by (auto simp add: main_plan9_def events_andthen snd_andthen ensurehistdir_def Let_def
        dest!: parseflags_Continue split: sum.splits option.splits)
  have p2: "case snd (main_plan9 w cl) of Inl n \<Rightarrow> True | Inr w' \<Rightarrow> w' = w"
    using assms
    by (auto simp add: main_plan9_def snd_andthen
        dest!: parseflags_Continue split: sum.splits option.splits)
  from l1 l2 p1 p2 show ?thesis by blast
qed

theorem no_continue_no_history_witness:
  "\<not> flag_c demo_cl
   \<and> list_all (\<lambda>e. \<not> history_event e) (events (main_linux demo_world demo_cl))
   \<and> list_all (\<lambda>e. \<not> history_event e) (events (main_plan9 demo_world demo_cl))"
proof -
  have c: "\<not> flag_c demo_cl"
    by (simp add: demo_cl_def)
  from no_continue_no_history [OF c, of demo_world] c show ?thesis by blast
qed

subsection \<open>The history directory\<close>

text \<open>
  Claim C10, as stated, fails: a run of the Linux program that has its credential but
  cannot read its prompt from standard input ends in \<^verbatim>\<open>parseFlags\<close>, before
  \<^verbatim>\<open>ensureHistDir\<close>; no directory is created.
\<close>

theorem mkdir_after_credential_counterexample:
  "Getenv closed_stdin_world ''OPENAI_API_KEY'' \<noteq> []
   \<and> main_linux closed_stdin_world demo_cl =
       ([Read_Stdin,
         Log ''[ERROR] prompt could not be read: read /dev/stdin: bad file descriptor''],
        Inl 1)"
  by (simp add: closed_stdin_world_def demo_world_def demo_cl_def main_linux_def
      parseFlags_def proc_defs)

text \<open>
  Claim C10, amended. On every run whose credential is set and, in the Linux program,
  whose prompt is resolved (an argument is given or standard input is read without
  error), with or without \<^verbatim>\<open>-c\<close>, the call of \<^verbatim>\<open>MkdirAll\<close> on the history
  directory is the first effect after the resolution of the prompt: it precedes every
  access to the history file and the HTTP request. The Plan 9 program reaches it
  whenever the credential is set.
\<close>

theorem mkdir_first:
  assumes "Getenv w ''OPENAI_API_KEY'' \<noteq> []"
  shows "((Args cl = [] \<longrightarrow> snd (Stdin w) = None) \<longrightarrow>
           (\<exists>rest. events (main_linux w cl) = prompt_events cl @ Mkdir (histDir w) # rest))
       \<and> (\<exists>rest. events (main_plan9 w cl) =
             prompt_events cl @ Mkdir (Join [plan9_home w, HISTDIR]) # rest)"
proof (intro conjI impI)
  assume rd: "Args cl = [] \<longrightarrow> snd (Stdin w) = None"
  obtain opts where p: "parseFlags w cl = (prompt_events cl, Inr opts)"
    using assms rd
    by (cases "Stdin w"; cases "Args cl")
       (auto simp add: parseFlags_def prompt_events_def Let_def proc_defs)
  show "\<exists>rest. events (main_linux w cl) = prompt_events cl @ Mkdir (histDir w) # rest"
    by (simp add: main_linux_def events_andthen snd_andthen p ensureHistDir_def)
next
  obtain opts where p: "parseflags w cl = (prompt_events cl, Inr opts)"
    and h: "Home opts = plan9_home w"
    using assms
    by (cases "Stdin w"; cases "Args cl")
       (auto simp add: parseflags_def prompt_events_def plan9_home_def Let_def proc_defs)
  show "\<exists>rest. events (main_plan9 w cl) =
          prompt_events cl @ Mkdir (Join [plan9_home w, HISTDIR]) # rest"
    by (simp add: main_plan9_def events_andthen snd_andthen p h ensurehistdir_def Let_def)
qed

theorem mkdir_first_witness:
  "Getenv demo_world ''OPENAI_API_KEY'' \<noteq> []
   \<and> (Args demo_cl = [] \<and> snd (Stdin demo_world) = None)
   \<and> (\<exists>rest. events (main_linux demo_world demo_cl) =
         [Read_Stdin, Mkdir ''/home/glenda/.config/slm''] @ rest)
   \<and> (\<exists>rest. events (main_plan9 demo_world demo_cl) =
         [Read_Stdin, Mkdir ''/usr/glenda/lib/llm''] @ rest)"
  using mkdir_first [of demo_world demo_cl]
  by (simp add: demo_world_def demo_cl_def prompt_events_def histDir_def Join_def AppName_def
      plan9_home_def HISTDIR_def)

end
